theory Spec2Isabelle
  imports Complex_Main
begin

section \<open>Python values and exceptions\<close>

text \<open>
  The pipeline of \<^verbatim>\<open>verify_news.py\<close> works on dictionaries loaded from JSON and on
  text returned by two external services. Strings are modelled as \<^typ>\<open>string\<close> and
  read as ASCII text: the character classes below are Python's restricted to code
  points below 128.
\<close>

datatype pyfloat = Finite rat | PosInf | NegInf | NaN

datatype json =
    JNull
  | JBool bool
  | JInt int
  | JFloat pyfloat
  | JStr string
  | JArr "json list"
  | JObj "(string \<times> json) list"

text \<open>
  The classes of exceptions. \<open>OtherError\<close> stands for any further class that derives
  from \<^verbatim>\<open>Exception\<close>; \<open>KeyboardInterrupt\<close>, \<open>SystemExit\<close> and \<open>OtherBaseException\<close>
  derive from \<^verbatim>\<open>BaseException\<close> only, so that a handler \<^verbatim>\<open>except Exception\<close> does
  not catch them.
\<close>

datatype exn_class =
    Exception | ValueError | TypeError | IndexError | OverflowError
  | JSONDecodeError | OtherError string
  | KeyboardInterrupt | SystemExit | OtherBaseException string

datatype exn = Raise exn_class string

fun derives_from_Exception :: "exn_class \<Rightarrow> bool" where
  "derives_from_Exception KeyboardInterrupt = False"
| "derives_from_Exception SystemExit = False"
| "derives_from_Exception (OtherBaseException name) = False"
| "derives_from_Exception c = True"

text \<open>Whether \<^verbatim>\<open>except Exception\<close> catches the exception.\<close>

fun is_exception :: "exn \<Rightarrow> bool" where
  "is_exception (Raise c m) = derives_from_Exception c"

fun exn_class_of :: "exn \<Rightarrow> exn_class" where
  "exn_class_of (Raise c m) = c"

text \<open>\<^verbatim>\<open>str(e)\<close> of an exception built from one message argument.\<close>

fun exn_text :: "exn \<Rightarrow> string" where
  "exn_text (Raise c m) = m"

text \<open>Truth value testing, as in \<^verbatim>\<open>if not news_text\<close>.\<close>

fun py_truthy :: "json \<Rightarrow> bool" where
  "py_truthy JNull = False"
| "py_truthy (JBool b) = b"
| "py_truthy (JInt n) = (n \<noteq> 0)"
| "py_truthy (JFloat f) = (f \<noteq> Finite 0)"
| "py_truthy (JStr s) = (s \<noteq> [])"
| "py_truthy (JArr xs) = (xs \<noteq> [])"
| "py_truthy (JObj kvs) = (kvs \<noteq> [])"

section \<open>String operations\<close>

definition py_isspace :: "char \<Rightarrow> bool" where
  "py_isspace c \<longleftrightarrow> c \<in> set [CHR 0x09, CHR 0x0A, CHR 0x0B, CHR 0x0C, CHR 0x0D,
                               CHR 0x1C, CHR 0x1D, CHR 0x1E, CHR 0x1F, CHR 0x20]"

definition py_isdigit :: "char \<Rightarrow> bool" where
  "py_isdigit c \<longleftrightarrow> c \<in> set ''0123456789''"

definition ascii_lowercase :: string where
  "ascii_lowercase = ''abcdefghijklmnopqrstuvwxyz''"

definition ascii_uppercase :: string where
  "ascii_uppercase = ''ABCDEFGHIJKLMNOPQRSTUVWXYZ''"

definition py_islower :: "char \<Rightarrow> bool" where
  "py_islower c \<longleftrightarrow> c \<in> set ascii_lowercase"

definition py_isupper :: "char \<Rightarrow> bool" where
  "py_isupper c \<longleftrightarrow> c \<in> set ascii_uppercase"

definition py_toupper :: "char \<Rightarrow> char" where
  "py_toupper c = (case map_of (zip ascii_lowercase ascii_uppercase) c of
                     Some u \<Rightarrow> u | None \<Rightarrow> c)"

definition py_tolower :: "char \<Rightarrow> char" where
  "py_tolower c = (case map_of (zip ascii_uppercase ascii_lowercase) c of
                     Some l \<Rightarrow> l | None \<Rightarrow> c)"

text \<open>\<^verbatim>\<open>s.strip()\<close>, \<^verbatim>\<open>s.lstrip('-')\<close>, \<^verbatim>\<open>s.startswith(p)\<close>.\<close>

definition py_strip :: "string \<Rightarrow> string" where
  "py_strip s = rev (dropWhile py_isspace (rev (dropWhile py_isspace s)))"

definition py_lstrip_chars :: "string \<Rightarrow> string \<Rightarrow> string" where
  "py_lstrip_chars cs s = dropWhile (\<lambda>c. c \<in> set cs) s"

definition py_startswith :: "string \<Rightarrow> string \<Rightarrow> bool" where
  "py_startswith p s \<longleftrightarrow> take (length p) s = p"

text \<open>
  \<^verbatim>\<open>s.split(sep, maxsplit)\<close> for a non-empty separator: scan from the left, cut at
  each occurrence, at most \<open>maxsplit\<close> times (\<open>None\<close>: no limit). \<open>cur\<close> is the piece
  being collected.
\<close>

function py_split_acc :: "string \<Rightarrow> nat option \<Rightarrow> string \<Rightarrow> string \<Rightarrow> string list" where
  "py_split_acc sep k cur s =
     (if s = [] then [cur]
      else if k \<noteq> Some 0 \<and> sep \<noteq> [] \<and> take (length sep) s = sep
        then cur # py_split_acc sep (map_option (\<lambda>n. n - 1) k) [] (drop (length sep) s)
      else py_split_acc sep k (cur @ [hd s]) (tl s))"
  by pat_completeness auto
termination
  by (relation "measure (\<lambda>(sep, k, cur, s). length s)") auto

declare py_split_acc.simps [simp del]

definition py_split :: "string \<Rightarrow> string \<Rightarrow> string list" where
  "py_split sep s = py_split_acc sep None [] s"

definition py_split_max :: "string \<Rightarrow> nat \<Rightarrow> string \<Rightarrow> string list" where
  "py_split_max sep n s = py_split_acc sep (Some n) [] s"

text \<open>\<^verbatim>\<open>sep.join(xs)\<close>\<close>

fun py_join :: "string \<Rightarrow> string list \<Rightarrow> string" where
  "py_join sep [] = []"
| "py_join sep [x] = x"
| "py_join sep (x # y # ys) = x @ sep @ py_join sep (y # ys)"

text \<open>
  \<^verbatim>\<open>s.replace(old, new)\<close> for non-empty \<open>old\<close> replaces every non-overlapping
  occurrence from the left, which are the cut points of \<^verbatim>\<open>s.split(old)\<close>.
\<close>

definition py_replace :: "string \<Rightarrow> string \<Rightarrow> string \<Rightarrow> string" where
  "py_replace old new s = py_join new (py_split old s)"

text \<open>
  \<^verbatim>\<open>s.title()\<close>: a cased character is upper-cased when the character before it is
  not cased and lower-cased when it is.
\<close>

fun py_title_from :: "bool \<Rightarrow> string \<Rightarrow> string" where
  "py_title_from prev [] = []"
| "py_title_from prev (c # cs) =
     (if py_islower c then (if prev then c else py_toupper c) # py_title_from True cs
      else if py_isupper c then (if prev then py_tolower c else c) # py_title_from True cs
      else c # py_title_from False cs)"

definition py_title :: "string \<Rightarrow> string" where
  "py_title s = py_title_from False s"

text \<open>List indexing \<^verbatim>\<open>xs[i]\<close>; a negative index counts from the end.\<close>

definition py_index :: "'a list \<Rightarrow> int \<Rightarrow> exn + 'a" where
  "py_index xs i =
     (if 0 \<le> i \<and> i < int (length xs) then Inr (xs ! nat i)
      else if i < 0 \<and> - i \<le> int (length xs) then Inr (xs ! nat (int (length xs) + i))
      else Inl (Raise IndexError ''list index out of range''))"

section \<open>Conversion to an integer\<close>

text \<open>
  \<^verbatim>\<open>repr(s)\<close> of a string, used by the message of a failed \<^verbatim>\<open>int(s)\<close>.
\<close>

definition hex_digit :: "nat \<Rightarrow> char" where
  "hex_digit n = ''0123456789abcdef'' ! (n mod 16)"

definition repr_char :: "char \<Rightarrow> char \<Rightarrow> string" where
  "repr_char q c =
     (if c = q \<or> c = CHR 0x5C then [CHR 0x5C, c]
      else if c = CHR 0x09 then [CHR 0x5C, CHR ''t'']
      else if c = CHR 0x0A then [CHR 0x5C, CHR ''n'']
      else if c = CHR 0x0D then [CHR 0x5C, CHR ''r'']
      else if (of_char c :: nat) < 32 \<or> (of_char c :: nat) = 127
        then [CHR 0x5C, CHR ''x'', hex_digit (of_char c div 16), hex_digit (of_char c)]
      else [c])"

definition py_repr :: "string \<Rightarrow> string" where
  "py_repr s =
     (let q = (if CHR 0x27 \<in> set s \<and> CHR 0x22 \<notin> set s then CHR 0x22 else CHR 0x27)
      in q # concat (map (repr_char q) s) @ [q])"

text \<open>
  The decimal literals \<^verbatim>\<open>int(s)\<close> accepts: optional surrounding whitespace, an
  optional sign, then digits, where single underscores may stand between digits. The
  whitespace skipped here is that of the C locale (space, tab, line feed, vertical tab,
  form feed, carriage return), a smaller set than the one \<^verbatim>\<open>str.strip\<close> removes.
  A literal of more than 4300 digits is refused (the interpreter's default limit), and
  the message of an invalid literal shows at most 200 characters of the operand's
  \<^verbatim>\<open>repr\<close>.
\<close>

definition c_isspace :: "char \<Rightarrow> bool" where
  "c_isspace c \<longleftrightarrow> c \<in> set [CHR 0x09, CHR 0x0A, CHR 0x0B, CHR 0x0C, CHR 0x0D, CHR 0x20]"

definition int_strip :: "string \<Rightarrow> string" where
  "int_strip s = rev (dropWhile c_isspace (rev (dropWhile c_isspace s)))"

definition int_body :: "string \<Rightarrow> string" where
  "int_body s =
     (let t = int_strip s
      in if t \<noteq> [] \<and> (hd t = CHR ''-'' \<or> hd t = CHR ''+'') then tl t else t)"

definition int_max_str_digits :: nat where
  "int_max_str_digits = 4300"

fun show_nat :: "nat \<Rightarrow> string" where
  "show_nat n =
     (if n < 10 then [''0123456789'' ! n]
      else show_nat (n div 10) @ [''0123456789'' ! (n mod 10)])"

declare show_nat.simps [simp del]

fun digits_ok :: "bool \<Rightarrow> string \<Rightarrow> bool" where
  "digits_ok prev_digit [] = prev_digit"
| "digits_ok prev_digit (c # cs) =
     (if py_isdigit c then digits_ok True cs
      else if c = CHR ''_'' then prev_digit \<and> digits_ok False cs
      else False)"

definition digit_value :: "char \<Rightarrow> int" where
  "digit_value c = int (of_char c) - 48"

definition decimal_value :: "string \<Rightarrow> int" where
  "decimal_value s = foldl (\<lambda>acc c. 10 * acc + digit_value c) 0 (filter py_isdigit s)"

definition parse_int_literal :: "string \<Rightarrow> int option" where
  "parse_int_literal s =
     (let neg = py_startswith ''-'' (int_strip s);
          body = int_body s
      in if digits_ok False body
         then Some (if neg then - decimal_value body else decimal_value body)
         else None)"

definition digit_count :: "string \<Rightarrow> nat" where
  "digit_count s = length (filter py_isdigit (int_body s))"

definition int_limit_error :: "nat \<Rightarrow> string" where
  "int_limit_error n =
     ''Exceeds the limit (4300 digits) for integer string conversion: value has ''
       @ show_nat n @ '' digits; use sys.set_int_max_str_digits() to increase the limit''"

definition truncate_rat :: "rat \<Rightarrow> int" where
  "truncate_rat q = (if 0 \<le> q then \<lfloor>q\<rfloor> else \<lceil>q\<rceil>)"

definition int_type_error :: "string \<Rightarrow> string" where
  "int_type_error tname =
     ''int() argument must be a string, a bytes-like object or a real number, not ''
       @ [CHR 0x27] @ tname @ [CHR 0x27]"

fun py_int :: "json \<Rightarrow> exn + int" where
  "py_int (JInt n) = Inr n"
| "py_int (JBool b) = Inr (if b then 1 else 0)"
| "py_int (JFloat (Finite q)) = Inr (truncate_rat q)"
| "py_int (JFloat NaN) = Inl (Raise ValueError ''cannot convert float NaN to integer'')"
| "py_int (JFloat f) = Inl (Raise OverflowError ''cannot convert float infinity to integer'')"
| "py_int (JStr s) =
     (case parse_int_literal s of
        Some n \<Rightarrow>
          if int_max_str_digits < digit_count s
          then Inl (Raise ValueError (int_limit_error (digit_count s)))
          else Inr n
      | None \<Rightarrow> Inl (Raise ValueError
                  (''invalid literal for int() with base 10: '' @ take 200 (py_repr s))))"
| "py_int JNull = Inl (Raise TypeError
     (int_type_error ''NoneType''))"
| "py_int (JArr xs) = Inl (Raise TypeError
     (int_type_error ''list''))"
| "py_int (JObj kvs) = Inl (Raise TypeError
     (int_type_error ''dict''))"

section \<open>Collaborators\<close>

text \<open>
  An evidence hit as \<^verbatim>\<open>search_supporting_evidence\<close> normalises it, and a raw hit of
  the search service, where any field may be absent. The fields the pipeline reads as
  text (\<open>url\<close>, \<open>title\<close>, \<open>content\<close>) are strings; the two it only passes on are
  arbitrary JSON values.
\<close>

record hit =
  url :: string
  title :: string
  content :: string
  score :: json
  published_date :: json

record raw_hit =
  raw_url :: "string option"
  raw_title :: "string option"
  raw_content :: "string option"
  raw_score :: "json option"
  raw_published_date :: "json option"

text \<open>The keyword arguments of \<^verbatim>\<open>tavily_client.search\<close>.\<close>

record search_request =
  query :: string
  include_domains :: "string list"
  max_results :: int
  search_depth :: string
  days :: int

text \<open>
  A prompt is an f-string over a fixed template. It is represented by the values that
  are formatted into it: the article text, the image description (in the claim prompt
  only when it is truthy), the label, and in the ranking prompt the claims and the
  title, URL and first 400 characters of content of the first 15 hits.
\<close>

datatype prompt =
    ClaimsPrompt json "json option" bool
  | RankingPrompt json json bool "string list" "(string \<times> string \<times> string) list"

text \<open>
  The outside world of one run: constructing the two clients from the API keys,
  \<^verbatim>\<open>gemini_model.generate_content(prompt).text\<close>, \<^verbatim>\<open>tavily_client.search(...)\<close>
  (whose answer may lack the key \<^verbatim>\<open>'results'\<close>) and the library's \<^verbatim>\<open>json.loads\<close>.
  Each may raise, also an exception that does not derive from \<^verbatim>\<open>Exception\<close>, such as
  \<open>KeyboardInterrupt\<close>. The theorems below hold for every such environment.
\<close>

record env =
  make_clients :: "string \<Rightarrow> string \<Rightarrow> exn option"
  generate_content :: "prompt \<Rightarrow> exn + string"
  tavily_search :: "search_request \<Rightarrow> exn + raw_hit list option"
  json_loads :: "string \<Rightarrow> exn + json"

text \<open>The calls a run makes to the outside, in order.\<close>

datatype call =
    Configure string string
  | Generate prompt
  | Search search_request

fun is_generate_ranking :: "call \<Rightarrow> bool" where
  "is_generate_ranking (Generate (RankingPrompt t i l cs hs)) = True"
| "is_generate_ranking c = False"

fun is_search :: "call \<Rightarrow> bool" where
  "is_search (Search r) = True"
| "is_search c = False"

section \<open>The pipeline\<close>

definition INDIAN_NEWS_DOMAINS :: "string list" where
  "INDIAN_NEWS_DOMAINS =
     [''timesofindia.indiatimes.com'', ''thehindu.com'', ''hindustantimes.com'',
      ''indianexpress.com'', ''ndtv.com'', ''thequint.com'', ''thewire.in'', ''scroll.in'',
      ''news18.com'', ''zeenews.india.com'', ''dnaindia.com'', ''deccanherald.com'',
      ''firstpost.com'', ''livemint.com'', ''businesstoday.in'',
      ''economictimes.indiatimes.com'', ''moneycontrol.com'', ''outlookindia.com'',
      ''newslaundry.com'', ''india.com'', ''mumbaimirror.indiatimes.com'',
      ''tribuneindia.com'', ''newindianexpress.com'', ''freepressjournal.in'']"

text \<open>
  \<^verbatim>\<open>try: ... except Exception as e: ...\<close>: the handler gets an exception that
  derives from \<^verbatim>\<open>Exception\<close>; any other one leaves the block.
\<close>

definition except_Exception :: "exn + 'a \<Rightarrow> (exn \<Rightarrow> exn + 'a) \<Rightarrow> exn + 'a" where
  "except_Exception body handler =
     (case body of
        Inr v \<Rightarrow> Inr v
      | Inl e \<Rightarrow> if is_exception e then handler e else Inl e)"

definition configure_apis :: "env \<Rightarrow> string \<Rightarrow> string \<Rightarrow> exn + unit" where
  "configure_apis w tavily_api_key gemini_api_key =
     except_Exception
       (case make_clients w tavily_api_key gemini_api_key of
          None \<Rightarrow> Inr ()
        | Some e \<Rightarrow> Inl e)
       (\<lambda>e. Inl (Raise Exception (''API configuration failed: '' @ exn_text e)))"

subsection \<open>Claim extraction\<close>

text \<open>The body of the loop over the lines of the response.\<close>

fun claims_loop :: "string list \<Rightarrow> exn + string list" where
  "claims_loop [] = Inr []"
| "claims_loop (l # ls) =
     (let line = py_strip l in
      if line \<noteq> [] \<and> (py_isdigit (hd line) \<or> py_startswith ''-'' line) then
        (case py_index (py_split_max ''.'' 1 line) (- 1) of
           Inl e \<Rightarrow> Inl e
         | Inr part \<Rightarrow>
             (let claim = py_strip (py_lstrip_chars ''-'' (py_strip part)) in
              case claims_loop ls of
                Inl e \<Rightarrow> Inl e
              | Inr claims \<Rightarrow> Inr (if claim \<noteq> [] then claim # claims else claims)))
      else claims_loop ls)"

definition parse_claims :: "string \<Rightarrow> exn + string list" where
  "parse_claims response_text =
     (case claims_loop (py_split [CHR 0x0A] (py_strip response_text)) of
        Inl e \<Rightarrow> Inl e
      | Inr claims \<Rightarrow> Inr (take 5 claims))"

definition extract_claims_for_verification ::
    "env \<Rightarrow> json \<Rightarrow> json \<Rightarrow> bool \<Rightarrow> (exn + string list) \<times> call list" where
  "extract_claims_for_verification w news_text image_text is_real =
     (let p = ClaimsPrompt news_text
                (if py_truthy image_text then Some image_text else None) is_real
      in (except_Exception
            (case generate_content w p of
               Inl e \<Rightarrow> Inl e
             | Inr response_text \<Rightarrow> parse_claims response_text)
            (\<lambda>e. Inr []),
          [Generate p]))"

subsection \<open>Evidence search\<close>

definition normalise_hit :: "raw_hit \<Rightarrow> hit" where
  "normalise_hit r =
     \<lparr> url = (case raw_url r of Some u \<Rightarrow> u | None \<Rightarrow> []),
       title = (case raw_title r of Some t \<Rightarrow> t | None \<Rightarrow> []),
       content = (case raw_content r of Some c \<Rightarrow> c | None \<Rightarrow> []),
       score = (case raw_score r of Some v \<Rightarrow> v | None \<Rightarrow> JInt 0),
       published_date = (case raw_published_date r of Some d \<Rightarrow> d | None \<Rightarrow> JStr []) \<rparr>"

definition search_query_for :: "string list \<Rightarrow> bool \<Rightarrow> string" where
  "search_query_for claims is_real =
     (if is_real then py_join '' OR '' claims @ '' confirmed true verified''
      else py_join '' OR '' claims @ '' false fake debunked hoax misinformation'')"

definition search_request_for :: "string list \<Rightarrow> bool \<Rightarrow> search_request" where
  "search_request_for claims is_real =
     \<lparr> query = search_query_for claims is_real,
       include_domains = INDIAN_NEWS_DOMAINS,
       max_results = 20,
       search_depth = ''advanced'',
       days = 365 \<rparr>"

definition search_supporting_evidence ::
    "env \<Rightarrow> string list \<Rightarrow> bool \<Rightarrow> (exn + hit list) \<times> call list" where
  "search_supporting_evidence w claims is_real =
     (let req = search_request_for claims is_real
      in (except_Exception
            (case tavily_search w req of
               Inl e \<Rightarrow> Inl e
             | Inr None \<Rightarrow> Inr []
             | Inr (Some raws) \<Rightarrow> Inr (map normalise_hit raws))
            (\<lambda>e. Inr []),
          [Search req]))"

subsection \<open>Ranking and explanation\<close>

definition label_text :: "bool \<Rightarrow> string" where
  "label_text is_real = (if is_real then ''REAL'' else ''FAKE'')"

text \<open>Removing a code fence and a language tag from the response.\<close>

definition clean_response :: "string \<Rightarrow> exn + string" where
  "clean_response raw =
     (let response_text = py_strip raw in
      if py_startswith ''```'' response_text then
        (case py_index (py_split ''```'' response_text) 1 of
           Inl e \<Rightarrow> Inl e
         | Inr inner \<Rightarrow>
             Inr (py_strip (if py_startswith ''json'' inner then drop 4 inner else inner)))
      else Inr (py_strip response_text))"

text \<open>
  \<^verbatim>\<open>r['url'].split('/')[2].replace('www.', '').split('.')[0].title()\<close>
\<close>

definition source_name :: "string \<Rightarrow> exn + string" where
  "source_name u =
     (case py_index (py_split ''/'' u) 2 of
        Inl e \<Rightarrow> Inl e
      | Inr host \<Rightarrow>
          (case py_index (py_split ''.'' (py_replace ''www.'' [] host)) 0 of
             Inl e \<Rightarrow> Inl e
           | Inr name \<Rightarrow> Inr (py_title name)))"

definition fallback_source :: "nat \<Rightarrow> hit \<Rightarrow> string \<Rightarrow> json" where
  "fallback_source i r name =
     JObj [(''rank'', JInt (int i + 1)),
           (''url'', JStr (url r)),
           (''title'', JStr (title r)),
           (''source_name'', JStr name),
           (''relevance'', JStr ''medium''),
           (''explanation'',
              JStr ''This source provides information related to the claims in the article.'')]"

text \<open>
  The list comprehension over \<^verbatim>\<open>enumerate(search_results[:5])\<close>; it raises as soon
  as one source name does.
\<close>

fun fallback_sources :: "nat \<Rightarrow> hit list \<Rightarrow> exn + json list" where
  "fallback_sources i [] = Inr []"
| "fallback_sources i (r # rs) =
     (case source_name (url r) of
        Inl e \<Rightarrow> Inl e
      | Inr name \<Rightarrow>
          (case fallback_sources (Suc i) rs of
             Inl e \<Rightarrow> Inl e
           | Inr rest \<Rightarrow> Inr (fallback_source i r name # rest)))"

definition fallback_result :: "bool \<Rightarrow> json list \<Rightarrow> json" where
  "fallback_result is_real sources =
     JObj [(''label'', JStr (label_text is_real)),
           (''overall_explanation'',
              JStr (''Analysis indicates this news appears to be ''
                    @ (if is_real then ''real'' else ''fake'')
                    @ '' based on available sources.'')),
           (''top_5_sources'', JArr sources)]"

definition analysis_error_result :: "bool \<Rightarrow> exn \<Rightarrow> json" where
  "analysis_error_result is_real e =
     JObj [(''label'', JStr (label_text is_real)),
           (''overall_explanation'', JStr (''Error during analysis: '' @ exn_text e)),
           (''top_5_sources'', JArr [])]"

definition ranking_prompt ::
    "json \<Rightarrow> json \<Rightarrow> bool \<Rightarrow> string list \<Rightarrow> hit list \<Rightarrow> prompt" where
  "ranking_prompt news_text image_text is_real claims search_results =
     RankingPrompt news_text image_text is_real claims
       (map (\<lambda>r. (title r, url r, take 400 (content r))) (take 15 search_results))"

text \<open>
  The \<^verbatim>\<open>try\<close> block: the call, the cleaning and \<^verbatim>\<open>json.loads\<close>. The two handlers
  follow, \<^verbatim>\<open>except json.JSONDecodeError\<close> first; an exception raised inside the first
  handler is not caught by the second.
\<close>

definition ranking_attempt :: "env \<Rightarrow> prompt \<Rightarrow> exn + json" where
  "ranking_attempt w p =
     (case generate_content w p of
        Inl e \<Rightarrow> Inl e
      | Inr raw \<Rightarrow>
          (case clean_response raw of
             Inl e \<Rightarrow> Inl e
           | Inr response_text \<Rightarrow> json_loads w response_text))"

definition select_top_5_with_explanations ::
    "env \<Rightarrow> json \<Rightarrow> json \<Rightarrow> bool \<Rightarrow> string list \<Rightarrow> hit list \<Rightarrow> (exn + json) \<times> call list" where
  "select_top_5_with_explanations w news_text image_text is_real claims search_results =
     (let p = ranking_prompt news_text image_text is_real claims search_results
      in (case ranking_attempt w p of
            Inr result \<Rightarrow> Inr result
          | Inl e \<Rightarrow>
              if exn_class_of e = JSONDecodeError then
                (case fallback_sources 0 (take 5 search_results) of
                   Inl e' \<Rightarrow> Inl e'
                 | Inr sources \<Rightarrow> Inr (fallback_result is_real sources))
              else if is_exception e then Inr (analysis_error_result is_real e)
              else Inl e,
          [Generate p]))"

subsection \<open>Orchestration\<close>

definition dict_get :: "(string \<rightharpoonup> json) \<Rightarrow> string \<Rightarrow> json \<Rightarrow> json" where
  "dict_get d k dflt = (case d k of Some v \<Rightarrow> v | None \<Rightarrow> dflt)"

definition empty_claims_result :: "bool \<Rightarrow> json" where
  "empty_claims_result is_real =
     JObj [(''label'', JStr (label_text is_real)),
           (''overall_explanation'', JStr ''Could not extract claims for verification''),
           (''top_5_sources'', JArr [])]"

definition no_evidence_result :: "bool \<Rightarrow> json" where
  "no_evidence_result is_real =
     JObj [(''label'', JStr (label_text is_real)),
           (''overall_explanation'',
              JStr (''No supporting sources found to ''
                    @ (if is_real then ''verify'' else ''debunk'') @ '' this news'')),
           (''top_5_sources'', JArr [])]"

definition error_result :: "exn \<Rightarrow> json" where
  "error_result e =
     JObj [(''label'', JStr ''ERROR''),
           (''overall_explanation'', JStr (''Error during verification: '' @ exn_text e)),
           (''top_5_sources'', JArr []),
           (''error'', JStr (exn_text e))]"

text \<open>Steps 1 to 5, once \<open>is_real\<close> is known.\<close>

definition run_stages ::
    "env \<Rightarrow> json \<Rightarrow> json \<Rightarrow> bool \<Rightarrow> string \<Rightarrow> string \<Rightarrow> (exn + json) \<times> call list" where
  "run_stages w news_text image_text is_real tavily_api_key gemini_api_key =
     (case configure_apis w tavily_api_key gemini_api_key of
        Inl e \<Rightarrow> (Inl e, [Configure tavily_api_key gemini_api_key])
      | Inr u \<Rightarrow>
          (case extract_claims_for_verification w news_text image_text is_real of
             (Inl e, calls1) \<Rightarrow> (Inl e, Configure tavily_api_key gemini_api_key # calls1)
           | (Inr claims, calls1) \<Rightarrow>
               if claims = [] then
                 (Inr (empty_claims_result is_real),
                  Configure tavily_api_key gemini_api_key # calls1)
               else
                 (case search_supporting_evidence w claims is_real of
                    (Inl e, calls2) \<Rightarrow>
                      (Inl e, Configure tavily_api_key gemini_api_key # calls1 @ calls2)
                  | (Inr search_results, calls2) \<Rightarrow>
                      if search_results = [] then
                        (Inr (no_evidence_result is_real),
                         Configure tavily_api_key gemini_api_key # calls1 @ calls2)
                      else
                        (case select_top_5_with_explanations w news_text image_text
                                is_real claims search_results of
                           (result, calls3) \<Rightarrow>
                             (result,
                              Configure tavily_api_key gemini_api_key
                                # calls1 @ calls2 @ calls3)))))"

text \<open>The body of the outer \<^verbatim>\<open>try\<close>.\<close>

definition verify_body ::
    "env \<Rightarrow> (string \<rightharpoonup> json) \<Rightarrow> string \<Rightarrow> string \<Rightarrow> (exn + json) \<times> call list" where
  "verify_body w news_input tavily_api_key gemini_api_key =
     (let news_text = dict_get news_input ''Text'' (JStr []);
          image_text = dict_get news_input ''Imagetext'' (JStr []);
          link_text = dict_get news_input ''Link text'' (JStr []);
          real_fake_label = dict_get news_input ''Real/Fake'' JNull
      in if \<not> py_truthy news_text then
           (Inl (Raise ValueError ''News text is required''), [])
         else if real_fake_label = JNull then
           (Inl (Raise ValueError ''Real/Fake label is required (1 for real, 0 for fake)''), [])
         else
           (case py_int real_fake_label of
              Inl e \<Rightarrow> (Inl e, [])
            | Inr n \<Rightarrow>
                run_stages w news_text image_text (n \<noteq> 0) tavily_api_key gemini_api_key))"

text \<open>
  The function with its outer handler: \<open>Inr\<close> is the dictionary returned to the caller,
  \<open>Inl\<close> an exception that leaves the function.
\<close>

definition verify_news_with_ground_truth ::
    "env \<Rightarrow> (string \<rightharpoonup> json) \<Rightarrow> string \<Rightarrow> string \<Rightarrow> (exn + json) \<times> call list" where
  "verify_news_with_ground_truth w news_input tavily_api_key gemini_api_key =
     (case verify_body w news_input tavily_api_key gemini_api_key of
        (body, calls) \<Rightarrow> (except_Exception body (\<lambda>e. Inr (error_result e)), calls))"

subsection \<open>Reading a result\<close>

fun json_field :: "string \<Rightarrow> json \<Rightarrow> json option" where
  "json_field k (JObj kvs) = map_of kvs k"
| "json_field k v = None"

fun json_items :: "json \<Rightarrow> json list option" where
  "json_items (JArr xs) = Some xs"
| "json_items v = None"

definition result_label :: "json \<Rightarrow> json option" where
  "result_label r = json_field ''label'' r"

definition result_sources :: "json \<Rightarrow> json list option" where
  "result_sources r =
     (case json_field ''top_5_sources'' r of Some v \<Rightarrow> json_items v | None \<Rightarrow> None)"

definition source_ranks :: "json list \<Rightarrow> json option list" where
  "source_ranks sources = map (json_field ''rank'') sources"

text \<open>Ranks \<open>1, \<dots>, k\<close> in this order.\<close>

definition dense_ranks :: "nat \<Rightarrow> json option list" where
  "dense_ranks k = map (\<lambda>i. Some (JInt (int i + 1))) [0..<k]"

text \<open>
  The run ended with the ranking request, and its result is the value that
  \<^verbatim>\<open>json.loads\<close> returned for the cleaned answer to that request.
\<close>

definition returned_parsed_json :: "env \<Rightarrow> json \<times> call list \<Rightarrow> bool" where
  "returned_parsed_json w out =
     (case rev (snd out) of
        Generate (RankingPrompt t i l cs hs) # earlier \<Rightarrow>
          ranking_attempt w (RankingPrompt t i l cs hs) = Inr (fst out)
      | _ \<Rightarrow> False)"

text \<open>
  A result object as the data model describes it: a label among REAL, FAKE and ERROR,
  an explanation string and a list of at most five sources.
\<close>

definition well_formed_result :: "json \<Rightarrow> bool" where
  "well_formed_result r =
     ((case result_label r of
         Some (JStr l) \<Rightarrow> l = ''REAL'' \<or> l = ''FAKE'' \<or> l = ''ERROR''
       | _ \<Rightarrow> False)
      \<and> (case json_field ''overall_explanation'' r of Some (JStr s) \<Rightarrow> True | _ \<Rightarrow> False)
      \<and> (case result_sources r of Some sources \<Rightarrow> length sources \<le> 5 | None \<Rightarrow> False))"

text \<open>A URL with a third \<open>/\<close>-separated part, where \<open>scheme://host/...\<close> has its host.\<close>

definition url_has_host :: "string \<Rightarrow> bool" where
  "url_has_host u = (2 < length (py_split ''/'' u))"

text \<open>
  The run ended with the ranking request, its answer failed to decode as JSON, and one
  of the first five hits shown in the request has a URL without host part: the case in
  which the fallback cannot name every source.
\<close>

definition fallback_met_url_without_host :: "env \<Rightarrow> call list \<Rightarrow> bool" where
  "fallback_met_url_without_host w calls =
     (case rev calls of
        Generate (RankingPrompt t i l cs hs) # earlier \<Rightarrow>
          (case ranking_attempt w (RankingPrompt t i l cs hs) of
             Inl e \<Rightarrow> exn_class_of e = JSONDecodeError
                      \<and> list_ex (\<lambda>h. \<not> url_has_host (fst (snd h))) (take 5 hs)
           | Inr r \<Rightarrow> False)
      | _ \<Rightarrow> False)"

text \<open>The exception is one that a collaborator raised in this environment.\<close>

definition raised_by_collaborator :: "env \<Rightarrow> string \<Rightarrow> string \<Rightarrow> exn \<Rightarrow> bool" where
  "raised_by_collaborator w tk gk e \<longleftrightarrow>
     make_clients w tk gk = Some e
     \<or> (\<exists>p. generate_content w p = Inl e)
     \<or> (\<exists>req. tavily_search w req = Inl e)
     \<or> (\<exists>s. json_loads w s = Inl e)"

text \<open>Every exception the collaborators raise derives from \<^verbatim>\<open>Exception\<close>.\<close>

definition raises_only_Exception :: "env \<Rightarrow> bool" where
  "raises_only_Exception w \<longleftrightarrow>
     (\<forall>tk gk e. make_clients w tk gk = Some e \<longrightarrow> is_exception e)
     \<and> (\<forall>p e. generate_content w p = Inl e \<longrightarrow> is_exception e)
     \<and> (\<forall>req e. tavily_search w req = Inl e \<longrightarrow> is_exception e)
     \<and> (\<forall>s e. json_loads w s = Inl e \<longrightarrow> is_exception e)"

section \<open>Scripted environments\<close>

text \<open>
  Concrete environments for the examples: both clients are constructed, the claim
  request and the ranking request get fixed answers, the search returns fixed raw hits,
  and \<^verbatim>\<open>json.loads\<close> is given by its graph on the texts of the example.
\<close>

definition no_json :: "string \<Rightarrow> exn + json" where
  "no_json s = Inl (Raise JSONDecodeError ''Expecting value: line 1 column 1 (char 0)'')"

definition loads_only :: "string \<Rightarrow> json \<Rightarrow> string \<Rightarrow> exn + json" where
  "loads_only text v s = (if s = text then Inr v else no_json s)"

definition scripted_env ::
    "string \<Rightarrow> raw_hit list \<Rightarrow> string \<Rightarrow> (string \<Rightarrow> exn + json) \<Rightarrow> env" where
  "scripted_env claims_text raws ranking_text loads =
     \<lparr> make_clients = (\<lambda>tk gk. None),
       generate_content =
         (\<lambda>p. case p of ClaimsPrompt t i l \<Rightarrow> Inr claims_text
                        | RankingPrompt t i l cs hs \<Rightarrow> Inr ranking_text),
       tavily_search = (\<lambda>req. Inr (Some raws)),
       json_loads = loads \<rparr>"

text \<open>The same, with a ranking request that raises.\<close>

definition scripted_env_failing_ranker :: "string \<Rightarrow> raw_hit list \<Rightarrow> exn \<Rightarrow> env" where
  "scripted_env_failing_ranker claims_text raws e =
     (scripted_env claims_text raws [] no_json)
       \<lparr> generate_content :=
           (\<lambda>p. case p of ClaimsPrompt t i l \<Rightarrow> Inr claims_text
                          | RankingPrompt t i l cs hs \<Rightarrow> Inl e) \<rparr>"

definition raw_hit_at :: "string \<Rightarrow> raw_hit" where
  "raw_hit_at u =
     \<lparr> raw_url = Some u, raw_title = Some ''Title'', raw_content = Some ''Content'',
       raw_score = None, raw_published_date = None \<rparr>"

section \<open>Facts about the string operations and the fallback\<close>

lemma py_split_acc_nonempty: "py_split_acc sep k cur s \<noteq> []"
  by (induction sep k cur s rule: py_split_acc.induct) (subst py_split_acc.simps, simp)

lemma py_index_first: "xs \<noteq> [] \<Longrightarrow> py_index xs 0 = Inr (hd xs)"
  by (cases xs) (simp_all add: py_index_def)

lemma py_index_last: "xs \<noteq> [] \<Longrightarrow> py_index xs (- 1) = Inr (last xs)"
  by (cases xs rule: rev_cases) (simp_all add: py_index_def)

lemma source_name_hosted: "url_has_host u \<Longrightarrow> \<exists>name. source_name u = Inr name"
  by (simp add: url_has_host_def source_name_def py_index_def py_split_def
        py_split_acc_nonempty)

lemma source_name_no_host:
  "\<not> url_has_host u \<Longrightarrow> source_name u = Inl (Raise IndexError ''list index out of range'')"
  by (simp add: url_has_host_def source_name_def py_index_def)

lemma fallback_sources_hosted:
  "\<forall>r \<in> set hs. url_has_host (url r) \<Longrightarrow> \<exists>sources. fallback_sources i hs = Inr sources"
proof (induction hs arbitrary: i)
  case Nil
  then show ?case by simp
next
  case (Cons r rs)
  then obtain name where "source_name (url r) = Inr name"
    using source_name_hosted by fastforce
  moreover obtain rest where "fallback_sources (Suc i) rs = Inr rest"
    using Cons by fastforce
  ultimately show ?case by simp
qed

lemma fallback_sources_ranks:
  "fallback_sources i hs = Inr sources \<Longrightarrow>
     length sources = length hs \<and>
     source_ranks sources = map (\<lambda>j. Some (JInt (int (i + j) + 1))) [0 ..< length hs]"
proof (induction hs arbitrary: i sources)
  case Nil
  then show ?case by (simp add: source_ranks_def)
next
  case (Cons r rs)
  then obtain name rest where
    rest: "fallback_sources (Suc i) rs = Inr rest" and
    src: "sources = fallback_source i r name # rest"
    by (auto split: sum.splits)
  have "length rest = length rs \<and>
        source_ranks rest = map (\<lambda>j. Some (JInt (int (Suc i + j) + 1))) [0 ..< length rs]"
    using Cons.IH [OF rest] .
  then show ?case
    using src
    by (simp add: source_ranks_def fallback_source_def map_upt_Suc del: upt_Suc)
qed

lemma fallback_sources_dense:
  "fallback_sources 0 hs = Inr sources \<Longrightarrow>
     length sources = length hs \<and> source_ranks sources = dense_ranks (length sources)"
  using fallback_sources_ranks [of 0 hs sources] by (simp add: dense_ranks_def)

lemma fallback_sources_raised:
  "fallback_sources i hs = Inl e \<Longrightarrow>
     e = Raise IndexError ''list index out of range'' \<and> (\<exists>r \<in> set hs. \<not> url_has_host (url r))"
proof (induction hs arbitrary: i)
  case Nil
  then show ?case by simp
next
  case (Cons r rs)
  show ?case
  proof (cases "url_has_host (url r)")
    case False
    then show ?thesis using Cons.prems source_name_no_host [OF False] by simp
  next
    case True
    then obtain name where "source_name (url r) = Inr name"
      using source_name_hosted by blast
    then have "fallback_sources (Suc i) rs = Inl e"
      using Cons.prems by (simp split: sum.splits)
    from Cons.IH [OF this] show ?thesis by simp
  qed
qed

text \<open>
  The indexing in the claim loop and in the cleaning of the ranking answer is always in
  range, so neither raises; a claim list has at most five entries.
\<close>

lemma claims_loop_total: "\<exists>claims. claims_loop ls = Inr claims"
proof (induction ls)
  case Nil
  then show ?case by simp
next
  case (Cons l ls)
  then obtain rest where rest: "claims_loop ls = Inr rest" by blast
  have "py_index (py_split_max ''.'' 1 (py_strip l)) (- 1)
          = Inr (last (py_split_max ''.'' 1 (py_strip l)))"
    by (simp add: py_index_last py_split_max_def py_split_acc_nonempty)
  then show ?case using rest by (simp add: Let_def)
qed

lemma parse_claims_total: "\<exists>claims. parse_claims answer = Inr claims \<and> length claims \<le> 5"
proof -
  obtain cs where "claims_loop (py_split [CHR 0x0A] (py_strip answer)) = Inr cs"
    using claims_loop_total by blast
  then show ?thesis by (simp add: parse_claims_def)
qed

lemma fence_split_has_second:
  assumes "py_startswith ''```'' t"
  shows "1 < length (py_split ''```'' t)"
proof -
  have "t \<noteq> []" using assms by (auto simp: py_startswith_def)
  then have "py_split ''```'' t = [] # py_split_acc ''```'' None [] (drop (length ''```'') t)"
    using assms
    by (simp add: py_split_def py_startswith_def py_split_acc.simps [of "''```''" None "[]" t])
  then show ?thesis
    using py_split_acc_nonempty [of "''```''" None "[]" "drop (length ''```'') t"]
    by (cases "py_split_acc ''```'' None [] (drop (length ''```'') t)") simp_all
qed

lemma clean_response_total: "\<exists>cleaned. clean_response raw = Inr cleaned"
proof (cases "py_startswith ''```'' (py_strip raw)")
  case True
  then have "1 < length (py_split ''```'' (py_strip raw))"
    by (rule fence_split_has_second)
  then have "py_index (py_split ''```'' (py_strip raw)) 1
               = Inr (py_split ''```'' (py_strip raw) ! 1)"
    by (simp add: py_index_def)
  then show ?thesis using True by (simp add: clean_response_def Let_def)
next
  case False
  then show ?thesis by (simp add: clean_response_def Let_def)
qed

lemma numbered_lines_example:
  "parse_claims (''1. The city launched a tree-planting drive.'' @ [CHR 0x0A]
                 @ ''2. 10,000 trees will be planted'' @ [CHR 0x0A]
                 @ ''Some remark'' @ [CHR 0x0A]
                 @ ''- Residents may volunteer'')
     = Inr [''The city launched a tree-planting drive.'',
            ''10,000 trees will be planted'',
            ''Residents may volunteer'']"
  by code_simp

lemma source_name_example:
  "source_name ''https://www.thehindu.com/news/national/article.ece'' = Inr ''Thehindu''"
  by code_simp

text \<open>
  On hits whose URLs have a host part the fallback is as described: one source per hit
  among the first five, in the order of the hits, the \<open>j\<close>-th with rank \<open>j + 1\<close>,
  relevance \<open>medium\<close> and the name computed from its URL.
\<close>

lemma fallback_sources_entries:
  "fallback_sources i hs = Inr sources \<Longrightarrow> j < length hs \<Longrightarrow>
     \<exists>name. source_name (url (hs ! j)) = Inr name
            \<and> sources ! j = fallback_source (i + j) (hs ! j) name"
proof (induction hs arbitrary: i j sources)
  case Nil
  then show ?case by simp
next
  case (Cons r rs)
  then obtain name rest where
    name: "source_name (url r) = Inr name" and
    rest: "fallback_sources (Suc i) rs = Inr rest" and
    src: "sources = fallback_source i r name # rest"
    by (auto split: sum.splits)
  show ?case
  proof (cases j)
    case 0
    then show ?thesis using name src by simp
  next
    case (Suc j')
    then have "j' < length rs" using Cons.prems(2) by simp
    from Cons.IH [OF rest this] show ?thesis using Suc src by simp
  qed
qed

lemma fallback_when_hosted:
  assumes "ranking_attempt w (ranking_prompt nt it b cs hs) = Inl e"
      and "exn_class_of e = JSONDecodeError"
      and "\<forall>r \<in> set (take 5 hs). url_has_host (url r)"
  shows "\<exists>sources.
           fst (select_top_5_with_explanations w nt it b cs hs) = Inr (fallback_result b sources)
         \<and> length sources = min 5 (length hs)
         \<and> (\<forall>j < length sources. \<exists>name.
               source_name (url (hs ! j)) = Inr name
             \<and> sources ! j = fallback_source j (hs ! j) name)"
proof -
  obtain sources where fb: "fallback_sources 0 (take 5 hs) = Inr sources"
    using fallback_sources_hosted [OF assms(3)] by blast
  have len: "length sources = min 5 (length hs)"
    using fallback_sources_dense [OF fb] by (simp add: min.commute)
  have "\<exists>name. source_name (url (hs ! j)) = Inr name
              \<and> sources ! j = fallback_source j (hs ! j) name"
    if "j < length sources" for j
  proof -
    have "j < length (take 5 hs)" using that len by simp
    from fallback_sources_entries [OF fb this] show ?thesis
      using that len by simp
  qed
  moreover have "fst (select_top_5_with_explanations w nt it b cs hs)
                   = Inr (fallback_result b sources)"
    using assms(1,2) fb by (simp add: select_top_5_with_explanations_def Let_def)
  ultimately show ?thesis using len by blast
qed

text \<open>What \<^verbatim>\<open>int\<close> raises derives from \<^verbatim>\<open>Exception\<close>.\<close>

lemma py_int_raises_Exception:
  assumes "py_int v = Inl e"
  shows "is_exception e"
proof (cases v)
  case (JFloat f)
  then show ?thesis using assms by (cases f) auto
next
  case (JStr s)
  then show ?thesis using assms by (auto split: option.splits if_splits)
qed (use assms in auto)

section \<open>The outcomes of a run\<close>

lemma except_Exception_cases:
  "except_Exception body handler =
     (case body of Inr v \<Rightarrow> Inr v | Inl e \<Rightarrow> if is_exception e then handler e else Inl e)"
  by (simp add: except_Exception_def)

text \<open>
  Claim extraction makes one request and returns at most five claims, unless the
  request raises an exception that does not derive from \<^verbatim>\<open>Exception\<close>.
\<close>

lemma extract_outcomes:
  assumes "extract_claims_for_verification w nt it b = (res, calls)"
  shows "calls = [Generate (ClaimsPrompt nt (if py_truthy it then Some it else None) b)]
       \<and> ((\<exists>claims. res = Inr claims \<and> length claims \<le> 5)
          \<or> (\<exists>e. res = Inl e \<and> \<not> is_exception e
                \<and> generate_content w
                      (ClaimsPrompt nt (if py_truthy it then Some it else None) b) = Inl e))"
proof -
  let ?p = "ClaimsPrompt nt (if py_truthy it then Some it else None) b"
  have calls: "calls = [Generate ?p]"
    using assms by (simp add: extract_claims_for_verification_def Let_def)
  show ?thesis
  proof (cases "generate_content w ?p")
    case (Inl e)
    then have "res = (if is_exception e then Inr [] else Inl e)"
      using assms
      by (auto simp: extract_claims_for_verification_def Let_def except_Exception_def)
    then show ?thesis using calls Inl by auto
  next
    case (Inr answer)
    obtain cs where cs: "parse_claims answer = Inr cs" "length cs \<le> 5"
      using parse_claims_total by blast
    then have "res = Inr cs"
      using assms Inr
      by (auto simp: extract_claims_for_verification_def Let_def except_Exception_def)
    then show ?thesis using calls cs(2) by auto
  qed
qed

lemma search_outcomes:
  assumes "search_supporting_evidence w claims b = (res, calls)"
  shows "calls = [Search (search_request_for claims b)]
       \<and> ((\<exists>hits. res = Inr hits)
          \<or> (\<exists>e. res = Inl e \<and> \<not> is_exception e
                \<and> tavily_search w (search_request_for claims b) = Inl e))"
proof -
  let ?req = "search_request_for claims b"
  have calls: "calls = [Search ?req]"
    using assms by (simp add: search_supporting_evidence_def Let_def)
  show ?thesis
  proof (cases "tavily_search w ?req")
    case (Inl e)
    then have "res = (if is_exception e then Inr [] else Inl e)"
      using assms
      by (auto simp: search_supporting_evidence_def Let_def except_Exception_def)
    then show ?thesis using calls Inl by auto
  next
    case (Inr answer)
    then have "\<exists>hits. res = Inr hits"
      using assms
      by (cases answer)
         (auto simp: search_supporting_evidence_def Let_def except_Exception_def)
    then show ?thesis using calls by auto
  qed
qed

lemma clean_response_raises_Exception: "clean_response raw = Inl e \<Longrightarrow> is_exception e"
  using clean_response_total [of raw] by auto

lemma ranking_attempt_escape:
  assumes "ranking_attempt w p = Inl e" and "\<not> is_exception e"
  shows "generate_content w p = Inl e \<or> (\<exists>s. json_loads w s = Inl e)"
proof (cases "generate_content w p")
  case (Inl e')
  then show ?thesis using assms(1) by (simp add: ranking_attempt_def)
next
  case (Inr raw)
  obtain cleaned where "clean_response raw = Inr cleaned"
    using clean_response_total by blast
  then have "json_loads w cleaned = Inl e"
    using assms(1) Inr by (simp add: ranking_attempt_def)
  then show ?thesis by blast
qed

text \<open>
  The ranking step makes one request and ends in one of five ways: the parsed JSON is
  returned as it is; a failure other than a JSON decoding error gives the labelled error
  dictionary when it derives from \<^verbatim>\<open>Exception\<close> and leaves the function otherwise; a
  decoding error gives the fallback, or the fallback itself raises.
\<close>

lemma select_outcomes:
  assumes "select_top_5_with_explanations w nt it b cs hs = (res, calls)"
  shows "calls = [Generate (ranking_prompt nt it b cs hs)] \<and>
     ((\<exists>r. res = Inr r \<and> ranking_attempt w (ranking_prompt nt it b cs hs) = Inr r)
      \<or> (\<exists>e. res = Inr (analysis_error_result b e))
      \<or> (\<exists>e. res = Inl e \<and> \<not> is_exception e
            \<and> ranking_attempt w (ranking_prompt nt it b cs hs) = Inl e)
      \<or> (\<exists>sources. res = Inr (fallback_result b sources)
            \<and> fallback_sources 0 (take 5 hs) = Inr sources)
      \<or> (\<exists>e e'. res = Inl e'
            \<and> ranking_attempt w (ranking_prompt nt it b cs hs) = Inl e
            \<and> exn_class_of e = JSONDecodeError
            \<and> fallback_sources 0 (take 5 hs) = Inl e'))"
proof -
  let ?p = "ranking_prompt nt it b cs hs"
  show ?thesis
  proof (cases "ranking_attempt w ?p")
    case (Inr r)
    then have "select_top_5_with_explanations w nt it b cs hs = (Inr r, [Generate ?p])"
      by (simp add: select_top_5_with_explanations_def Let_def)
    with assms have "res = Inr r" and "calls = [Generate ?p]" by simp_all
    then show ?thesis using Inr by blast
  next
    case (Inl e)
    show ?thesis
    proof (cases "exn_class_of e = JSONDecodeError")
      case False
      show ?thesis
      proof (cases "is_exception e")
        case True
        then have "select_top_5_with_explanations w nt it b cs hs =
                     (Inr (analysis_error_result b e), [Generate ?p])"
          using Inl False by (simp add: select_top_5_with_explanations_def Let_def)
        with assms have "res = Inr (analysis_error_result b e)" and "calls = [Generate ?p]"
          by simp_all
        then show ?thesis by blast
      next
        case escaped: False
        then have "select_top_5_with_explanations w nt it b cs hs = (Inl e, [Generate ?p])"
          using Inl False by (simp add: select_top_5_with_explanations_def Let_def)
        with assms have "res = Inl e" and "calls = [Generate ?p]" by simp_all
        then show ?thesis using escaped Inl by blast
      qed
    next
      case True
      show ?thesis
      proof (cases "fallback_sources 0 (take 5 hs)")
        case (Inr sources)
        then have "select_top_5_with_explanations w nt it b cs hs =
                     (Inr (fallback_result b sources), [Generate ?p])"
          using Inl True by (simp add: select_top_5_with_explanations_def Let_def)
        with assms have "res = Inr (fallback_result b sources)" and "calls = [Generate ?p]"
          by simp_all
        then show ?thesis using Inr by blast
      next
        case raised: (Inl e')
        then have "select_top_5_with_explanations w nt it b cs hs = (Inl e', [Generate ?p])"
          using Inl True by (simp add: select_top_5_with_explanations_def Let_def)
        with assms have "res = Inl e'" and "calls = [Generate ?p]" by simp_all
        then show ?thesis using raised Inl True by blast
      qed
    qed
  qed
qed

lemma returned_parsed_json_ranking:
  "ranking_attempt w (ranking_prompt nt it b cs hs) = Inr r \<Longrightarrow>
   returned_parsed_json w (r, earlier @ [Generate (ranking_prompt nt it b cs hs)])"
  by (simp add: returned_parsed_json_def ranking_prompt_def)

lemma fallback_met_url_without_host_ranking:
  assumes "ranking_attempt w (ranking_prompt nt it b cs hs) = Inl e"
      and "exn_class_of e = JSONDecodeError"
      and "fallback_sources 0 (take 5 hs) = Inl e'"
  shows "fallback_met_url_without_host w (earlier @ [Generate (ranking_prompt nt it b cs hs)])"
proof -
  obtain r where r: "r \<in> set (take 5 hs)" "\<not> url_has_host (url r)"
    using fallback_sources_raised [OF assms(3)] by blast
  let ?shown = "map (\<lambda>r. (title r, url r, take 400 (content r))) (take 15 hs)"
  have "take 5 ?shown = map (\<lambda>r. (title r, url r, take 400 (content r))) (take 5 hs)"
    by (simp add: take_map)
  then have "(title r, url r, take 400 (content r)) \<in> set (take 5 ?shown)"
    using r(1) by auto
  then have "list_ex (\<lambda>h. \<not> url_has_host (fst (snd h))) (take 5 ?shown)"
    using r(2) unfolding list_ex_iff by force
  then show ?thesis
    using assms(1,2)
    by (simp add: fallback_met_url_without_host_def ranking_prompt_def)
qed

text \<open>
  All the ways a run of the stages can end, for a label \<open>b\<close>. The clients may fail to
  be constructed; an exception outside \<^verbatim>\<open>Exception\<close> raised by a collaborator leaves
  the function; otherwise the result is one of the dictionaries the pipeline builds for
  \<open>b\<close>, the parsed JSON of the ranking answer, or the \<open>IndexError\<close> of the fallback.
\<close>

lemma run_stages_outcomes:
  assumes "run_stages w nt it b tk gk = (res, calls)"
  shows "(\<exists>e. make_clients w tk gk = Some e \<and> is_exception e \<and> calls = [Configure tk gk]
            \<and> res = Inl (Raise Exception (''API configuration failed: '' @ exn_text e)))
       \<or> (\<exists>e. res = Inl e \<and> \<not> is_exception e \<and> raised_by_collaborator w tk gk e)
       \<or> (make_clients w tk gk = None \<and>
           (res = Inr (empty_claims_result b)
            \<or> res = Inr (no_evidence_result b)
            \<or> (\<exists>e. res = Inr (analysis_error_result b e))
            \<or> (\<exists>hs sources. res = Inr (fallback_result b sources)
                  \<and> fallback_sources 0 (take 5 hs) = Inr sources)
            \<or> (res = Inl (Raise IndexError ''list index out of range'')
                  \<and> fallback_met_url_without_host w calls)
            \<or> (\<exists>r. res = Inr r \<and> returned_parsed_json w (r, calls))))"
proof (cases "make_clients w tk gk")
  case (Some e)
  then show ?thesis
    using assms
    by (cases "is_exception e")
       (auto simp: run_stages_def configure_apis_def except_Exception_def
                   raised_by_collaborator_def)
next
  case None
  then have conf: "configure_apis w tk gk = Inr ()"
    by (simp add: configure_apis_def except_Exception_def)
  obtain r1 calls1 where ex: "extract_claims_for_verification w nt it b = (r1, calls1)"
    by (cases "extract_claims_for_verification w nt it b")
  from extract_outcomes [OF ex] consider
      (escaped) e where "r1 = Inl e" "\<not> is_exception e" "raised_by_collaborator w tk gk e"
    | (claims) claims where "r1 = Inr claims"
    by (auto simp: raised_by_collaborator_def)
  then show ?thesis
  proof cases
    case escaped
    then have "res = Inl e" using assms conf ex by (simp add: run_stages_def)
    then show ?thesis using escaped by blast
  next
    case claims
    show ?thesis
    proof (cases "claims = []")
      case True
      then have "res = Inr (empty_claims_result b)"
        using assms conf ex claims by (simp add: run_stages_def)
      then show ?thesis using None by blast
    next
      case nonempty: False
      obtain r2 calls2 where se: "search_supporting_evidence w claims b = (r2, calls2)"
        by (cases "search_supporting_evidence w claims b")
      from search_outcomes [OF se] consider
          (escaped) e where "r2 = Inl e" "\<not> is_exception e" "raised_by_collaborator w tk gk e"
        | (hits) hits where "r2 = Inr hits"
        by (auto simp: raised_by_collaborator_def)
      then show ?thesis
      proof cases
        case escaped
        then have "res = Inl e"
          using assms conf ex claims nonempty se by (simp add: run_stages_def)
        then show ?thesis using escaped by blast
      next
        case hits
        show ?thesis
        proof (cases "hits = []")
          case True
          then have "res = Inr (no_evidence_result b)"
            using assms conf ex claims nonempty se hits by (simp add: run_stages_def)
          then show ?thesis using None by blast
        next
          case False
          obtain r3 calls3 where
            sel: "select_top_5_with_explanations w nt it b claims hits = (r3, calls3)"
            by (cases "select_top_5_with_explanations w nt it b claims hits")
          have res: "res = r3"
            and calls: "calls = (Configure tk gk # calls1 @ calls2) @ calls3"
            using assms conf ex claims nonempty se hits False sel
            by (simp_all add: run_stages_def)
          let ?p = "ranking_prompt nt it b claims hits"
          from select_outcomes [OF sel]
          have c3: "calls3 = [Generate ?p]" by blast
          from select_outcomes [OF sel] consider
              (parsed) r where "r3 = Inr r" "ranking_attempt w ?p = Inr r"
            | (failed) e where "r3 = Inr (analysis_error_result b e)"
            | (escaped) e where "r3 = Inl e" "\<not> is_exception e" "ranking_attempt w ?p = Inl e"
            | (fallback) sources where "r3 = Inr (fallback_result b sources)"
                "fallback_sources 0 (take 5 hits) = Inr sources"
            | (raised) e e' where "r3 = Inl e'" "ranking_attempt w ?p = Inl e"
                "exn_class_of e = JSONDecodeError" "fallback_sources 0 (take 5 hits) = Inl e'"
            by blast
          then show ?thesis
          proof cases
            case parsed
            have "returned_parsed_json w (r, calls)"
              unfolding calls c3 using returned_parsed_json_ranking [OF parsed(2)] .
            then show ?thesis using None res parsed(1) by blast
          next
            case failed
            then show ?thesis using None res by blast
          next
            case escaped
            have "raised_by_collaborator w tk gk e"
              using ranking_attempt_escape [OF escaped(3,2)]
              by (auto simp: raised_by_collaborator_def)
            then show ?thesis using res escaped(1,2) by blast
          next
            case fallback
            then show ?thesis using None res by blast
          next
            case raised
            have "fallback_met_url_without_host w calls"
              unfolding calls c3
              using fallback_met_url_without_host_ranking [OF raised(2,3,4)] .
            moreover have "e' = Raise IndexError ''list index out of range''"
              using fallback_sources_raised [OF raised(4)] by simp
            ultimately show ?thesis using None res raised(1) by blast
          qed
        qed
      qed
    qed
  qed
qed

text \<open>The calls of a run: the clients, the claim request, then calls that carry \<open>b\<close>.\<close>

lemma run_stages_calls:
  assumes "run_stages w nt it b tk gk = (res, calls)"
  shows "\<exists>rest. calls = Configure tk gk # rest
           \<and> (make_clients w tk gk = None \<longrightarrow>
                (\<exists>later. rest = Generate (ClaimsPrompt nt
                                    (if py_truthy it then Some it else None) b) # later
                   \<and> (\<forall>req. Search req \<in> set later \<longrightarrow>
                          (\<exists>claims. claims \<noteq> [] \<and> req = search_request_for claims b))))"
proof (cases "make_clients w tk gk")
  case (Some e)
  then show ?thesis
    using assms
    by (cases "is_exception e")
       (auto simp: run_stages_def configure_apis_def except_Exception_def)
next
  case None
  then have conf: "configure_apis w tk gk = Inr ()"
    by (simp add: configure_apis_def except_Exception_def)
  let ?p1 = "ClaimsPrompt nt (if py_truthy it then Some it else None) b"
  obtain r1 calls1 where ex: "extract_claims_for_verification w nt it b = (r1, calls1)"
    by (cases "extract_claims_for_verification w nt it b")
  have c1: "calls1 = [Generate ?p1]" using extract_outcomes [OF ex] by blast
  show ?thesis
  proof (cases r1)
    case (Inl e)
    then have "calls = [Configure tk gk, Generate ?p1]"
      using assms conf ex c1 by (simp add: run_stages_def)
    then show ?thesis by simp
  next
    case (Inr claims)
    show ?thesis
    proof (cases "claims = []")
      case True
      then have "calls = [Configure tk gk, Generate ?p1]"
        using assms conf ex c1 Inr by (simp add: run_stages_def)
      then show ?thesis by simp
    next
      case nonempty: False
      obtain r2 calls2 where se: "search_supporting_evidence w claims b = (r2, calls2)"
        by (cases "search_supporting_evidence w claims b")
      have c2: "calls2 = [Search (search_request_for claims b)]"
        using search_outcomes [OF se] by blast
      show ?thesis
      proof (cases r2)
        case (Inl e)
        then have "calls = [Configure tk gk, Generate ?p1, Search (search_request_for claims b)]"
          using assms conf ex c1 Inr nonempty se c2 by (simp add: run_stages_def)
        then show ?thesis using nonempty by auto
      next
        case hits: (Inr hits)
        show ?thesis
        proof (cases "hits = []")
          case True
          then have "calls = [Configure tk gk, Generate ?p1,
                              Search (search_request_for claims b)]"
            using assms conf ex c1 Inr nonempty se c2 hits by (simp add: run_stages_def)
          then show ?thesis using nonempty by auto
        next
          case False
          obtain r3 calls3 where
            sel: "select_top_5_with_explanations w nt it b claims hits = (r3, calls3)"
            by (cases "select_top_5_with_explanations w nt it b claims hits")
          have c3: "calls3 = [Generate (ranking_prompt nt it b claims hits)]"
            using select_outcomes [OF sel] by blast
          have "calls = [Configure tk gk, Generate ?p1, Search (search_request_for claims b),
                         Generate (ranking_prompt nt it b claims hits)]"
            using assms conf ex c1 Inr nonempty se c2 hits False sel c3
            by (simp add: run_stages_def)
          then show ?thesis using nonempty by auto
        qed
      qed
    qed
  qed
qed

lemma verify_body_outcomes:
  assumes "verify_body w news_input tk gk = (res, calls)"
  shows "(\<exists>e. res = Inl e \<and> is_exception e \<and> calls = [])
       \<or> (\<exists>nt it b. run_stages w nt it b tk gk = (res, calls))"
proof -
  let ?t = "dict_get news_input ''Text'' (JStr [])"
  let ?l = "dict_get news_input ''Real/Fake'' JNull"
  show ?thesis
  proof (cases "\<not> py_truthy ?t \<or> ?l = JNull")
    case True
    then show ?thesis using assms by (auto simp: verify_body_def Let_def split: if_splits)
  next
    case False
    show ?thesis
    proof (cases "py_int ?l")
      case (Inl e)
      then have "res = Inl e" "calls = []"
        using assms False by (auto simp: verify_body_def Let_def)
      then show ?thesis using py_int_raises_Exception [OF Inl] by blast
    next
      case (Inr n)
      then show ?thesis using assms False by (auto simp: verify_body_def Let_def)
    qed
  qed
qed

lemma verify_outcomes:
  assumes "verify_news_with_ground_truth w news_input tk gk = (res, calls)"
  shows "(\<exists>e. res = Inl e \<and> \<not> is_exception e \<and> raised_by_collaborator w tk gk e)
   \<or> (\<exists>e. res = Inr (error_result e))
   \<or> (\<exists>b. res = Inr (empty_claims_result b))
   \<or> (\<exists>b. res = Inr (no_evidence_result b))
   \<or> (\<exists>b e. res = Inr (analysis_error_result b e))
   \<or> (\<exists>b hs sources. res = Inr (fallback_result b sources)
          \<and> fallback_sources 0 (take 5 hs) = Inr sources)
   \<or> (\<exists>r. res = Inr r \<and> returned_parsed_json w (r, calls))"
proof -
  obtain body where body: "verify_body w news_input tk gk = (body, calls)"
    and res: "res = except_Exception body (\<lambda>e. Inr (error_result e))"
    using assms by (auto simp: verify_news_with_ground_truth_def split: prod.splits)
  from verify_body_outcomes [OF body] show ?thesis
  proof
    assume "\<exists>e. body = Inl e \<and> is_exception e \<and> calls = []"
    then show ?thesis using res by (auto simp: except_Exception_def)
  next
    assume "\<exists>nt it b. run_stages w nt it b tk gk = (body, calls)"
    then obtain nt it b where run: "run_stages w nt it b tk gk = (body, calls)" by blast
    from run_stages_outcomes [OF run] consider
        (config) e where "body = Inl e" "is_exception e"
      | (escaped) e where "body = Inl e" "\<not> is_exception e" "raised_by_collaborator w tk gk e"
      | (empty) "body = Inr (empty_claims_result b)"
      | (none) "body = Inr (no_evidence_result b)"
      | (failed) e where "body = Inr (analysis_error_result b e)"
      | (fallback) hs sources where "body = Inr (fallback_result b sources)"
          "fallback_sources 0 (take 5 hs) = Inr sources"
      | (raised) e where "body = Inl e" "is_exception e"
      | (parsed) r where "body = Inr r" "returned_parsed_json w (r, calls)"
      by fastforce
    then show ?thesis
    proof cases
      case config
      then have "res = Inr (error_result e)" using res by (simp add: except_Exception_def)
      then show ?thesis by blast
    next
      case escaped
      then have "res = Inl e" using res by (simp add: except_Exception_def)
      then show ?thesis using escaped by blast
    next
      case empty
      then have "res = Inr (empty_claims_result b)"
        using res by (simp add: except_Exception_def)
      then show ?thesis by blast
    next
      case none
      then have "res = Inr (no_evidence_result b)"
        using res by (simp add: except_Exception_def)
      then show ?thesis by blast
    next
      case failed
      then have "res = Inr (analysis_error_result b e)"
        using res by (simp add: except_Exception_def)
      then show ?thesis by blast
    next
      case fallback
      then have "res = Inr (fallback_result b sources)"
        using res by (simp add: except_Exception_def)
      then show ?thesis using fallback(2) by blast
    next
      case raised
      then have "res = Inr (error_result e)" using res by (simp add: except_Exception_def)
      then show ?thesis by blast
    next
      case parsed
      then have "res = Inr r" using res by (simp add: except_Exception_def)
      then show ?thesis using parsed(2) by blast
    qed
  qed
qed

lemma built_result_shapes:
  "result_sources (error_result e) = Some []"
  "result_sources (empty_claims_result b) = Some []"
  "result_sources (no_evidence_result b) = Some []"
  "result_sources (analysis_error_result b e) = Some []"
  "result_sources (fallback_result b sources) = Some sources"
  by (simp_all add: result_sources_def error_result_def empty_claims_result_def
        no_evidence_result_def analysis_error_result_def fallback_result_def)

lemma built_result_labels:
  "result_label (error_result e) = Some (JStr ''ERROR'')"
  "result_label (empty_claims_result b) = Some (JStr (label_text b))"
  "result_label (no_evidence_result b) = Some (JStr (label_text b))"
  "result_label (analysis_error_result b e) = Some (JStr (label_text b))"
  "result_label (fallback_result b sources) = Some (JStr (label_text b))"
  by (simp_all add: result_label_def error_result_def empty_claims_result_def
        no_evidence_result_def analysis_error_result_def fallback_result_def)

lemma well_formed_built:
  "well_formed_result (error_result e)"
  "well_formed_result (empty_claims_result b)"
  "well_formed_result (no_evidence_result b)"
  "well_formed_result (analysis_error_result b e)"
  "length sources \<le> 5 \<Longrightarrow> well_formed_result (fallback_result b sources)"
  by (simp_all add: well_formed_result_def result_sources_def result_label_def label_text_def
        error_result_def empty_claims_result_def
        no_evidence_result_def analysis_error_result_def fallback_result_def)

text \<open>
  The label of what a run returns when the clients are constructed: the label text of
  \<open>b\<close>, unless the parsed JSON is returned or the fallback met a URL without host.
\<close>

lemma run_stages_label:
  assumes "run_stages w nt it b tk gk = (res, calls)"
      and "make_clients w tk gk = None"
      and "except_Exception res (\<lambda>e. Inr (error_result e)) = Inr r"
  shows "result_label r = Some (JStr (label_text b))
       \<or> returned_parsed_json w (r, calls)
       \<or> fallback_met_url_without_host w calls"
  using run_stages_outcomes [OF assms(1)] assms(2,3)
  by (auto simp: except_Exception_def built_result_labels split: if_splits)

lemma run_stages_not_configured:
  assumes "run_stages w nt it b tk gk = (res, calls)"
      and "make_clients w tk gk \<noteq> None"
      and "except_Exception res (\<lambda>e. Inr (error_result e)) = Inr r"
  shows "\<exists>e. make_clients w tk gk = Some e \<and> calls = [Configure tk gk]
            \<and> r = error_result (Raise Exception (''API configuration failed: '' @ exn_text e))"
  using run_stages_outcomes [OF assms(1)] assms(2,3)
  by (auto simp: except_Exception_def split: if_splits)

section \<open>Input validation\<close>

text \<open>
  C9. A record whose \<open>Text\<close> field is missing or empty, or whose \<open>Real/Fake\<close> field
  is missing, is rejected before anything outside is called: the list of calls is empty,
  not even the clients are constructed, and the result is the ERROR-shaped dictionary
  of the top-level handler, with the message of the local validation error.
\<close>

theorem validation_rejects_before_calls:
  assumes "news_input ''Text'' = None \<or> news_input ''Text'' = Some (JStr [])
           \<or> news_input ''Real/Fake'' = None"
  shows "verify_news_with_ground_truth w news_input tavily_api_key gemini_api_key =
           (Inr (error_result (Raise ValueError
              (if \<not> py_truthy (dict_get news_input ''Text'' (JStr []))
               then ''News text is required''
               else ''Real/Fake label is required (1 for real, 0 for fake)''))), [])"
  using assms
  by (auto simp: verify_news_with_ground_truth_def verify_body_def dict_get_def Let_def
                 except_Exception_def)

theorem validation_rejects_before_calls_witness:
  "[''Real/Fake'' \<mapsto> JInt 1] ''Text'' = None \<and>
   verify_news_with_ground_truth (scripted_env ''1. A claim'' [] ''[]'' no_json)
       [''Real/Fake'' \<mapsto> JInt 1] ''tk'' ''gk'' =
     (Inr (JObj [(''label'', JStr ''ERROR''),
            (''overall_explanation'', JStr ''Error during verification: News text is required''),
            (''top_5_sources'', JArr []),
            (''error'', JStr ''News text is required'')]), [])"
  using validation_rejects_before_calls
          [of "[''Real/Fake'' \<mapsto> JInt 1]" "scripted_env ''1. A claim'' [] ''[]'' no_json"
              "''tk''" "''gk''"]
  by (simp add: dict_get_def error_result_def)

section \<open>Evidence search\<close>

text \<open>
  C7. For every claim list and either label, \<open>search_supporting_evidence\<close> issues
  exactly one search. Its query is the claims joined by \<open>" OR "\<close> followed by
  \<open>" confirmed true verified"\<close> for a real label and by
  \<open>" false fake debunked hoax misinformation"\<close> for a fake one; the search is restricted
  to the allowlist \<open>INDIAN_NEWS_DOMAINS\<close>, asks for at most 20 results, uses the
  service's deep mode (which the service calls \<open>advanced\<close>) and a window of 365 days.
\<close>

theorem search_issues_one_biased_query:
  "snd (search_supporting_evidence w claims is_real) =
     [Search \<lparr> query = py_join '' OR '' claims
                        @ (if is_real then '' confirmed true verified''
                           else '' false fake debunked hoax misinformation''),
               include_domains = INDIAN_NEWS_DOMAINS,
               max_results = 20,
               search_depth = ''advanced'',
               days = 365 \<rparr>]"
  by (simp add: search_supporting_evidence_def search_request_for_def search_query_for_def Let_def)

section \<open>Early exits\<close>

lemma verify_body_valid:
  assumes "news_input ''Text'' = Some t" "py_truthy t"
      and "news_input ''Real/Fake'' = Some v" "v \<noteq> JNull"
  shows "verify_body w news_input tk gk =
           (case py_int v of
              Inl e \<Rightarrow> (Inl e, [])
            | Inr n \<Rightarrow> run_stages w t (dict_get news_input ''Imagetext'' (JStr [])) (n \<noteq> 0) tk gk)"
  using assms by (simp add: verify_body_def dict_get_def Let_def split: sum.splits)

lemma verify_valid_label:
  assumes "news_input ''Text'' = Some (JStr t)" and "t \<noteq> []"
      and "news_input ''Real/Fake'' = Some (JInt n)"
  shows "verify_body w news_input tk gk =
           run_stages w (JStr t) (dict_get news_input ''Imagetext'' (JStr [])) (n \<noteq> 0) tk gk"
  using verify_body_valid [of news_input "JStr t" "JInt n" w tk gk] assms by simp

text \<open>
  The claim C4 as written gives the explanation in lower case; the code's string starts
  with a capital letter.
\<close>

theorem empty_claims_short_circuit_counterexample:
  "fst (extract_claims_for_verification (scripted_env ''No claims found.'' [] ''[]'' no_json)
          (JStr ''City launches tree-planting drive'') (JStr []) False) = Inr []
   \<and> fst (verify_news_with_ground_truth
                (scripted_env ''No claims found.'' [] ''[]'' no_json)
                [''Text'' \<mapsto> JStr ''City launches tree-planting drive'',
                 ''Real/Fake'' \<mapsto> JInt 0] ''tk'' ''gk'')
       = Inr (empty_claims_result False)
   \<and> json_field ''overall_explanation'' (empty_claims_result False)
       \<noteq> Some (JStr ''could not extract claims for verification'')"
  by code_simp

text \<open>
  C4 (amended). For a valid request (non-empty text, label 0 or 1) whose clients are
  constructed and whose claim extraction returns no claim, the pipeline makes exactly two
  calls, the construction of the clients and the claim request, so the search is never
  invoked, and it returns the dictionary with the target label, the explanation
  \<open>Could not extract claims for verification\<close> and an empty source list.
\<close>

theorem empty_claims_short_circuit:
  assumes "news_input ''Text'' = Some (JStr t)" and "t \<noteq> []"
      and "news_input ''Real/Fake'' = Some (JInt n)" and "n = 0 \<or> n = 1"
      and "make_clients w tk gk = None"
      and "fst (extract_claims_for_verification w (JStr t)
                  (dict_get news_input ''Imagetext'' (JStr [])) (n = 1)) = Inr []"
  shows "fst (verify_news_with_ground_truth w news_input tk gk) =
           Inr (JObj [(''label'', JStr (if n = 1 then ''REAL'' else ''FAKE'')),
                 (''overall_explanation'', JStr ''Could not extract claims for verification''),
                 (''top_5_sources'', JArr [])])
         \<and> snd (verify_news_with_ground_truth w news_input tk gk) =
           [Configure tk gk,
            Generate (ClaimsPrompt (JStr t)
              (if py_truthy (dict_get news_input ''Imagetext'' (JStr []))
               then Some (dict_get news_input ''Imagetext'' (JStr [])) else None) (n = 1))]
         \<and> \<not> list_ex is_search (snd (verify_news_with_ground_truth w news_input tk gk))"
proof -
  let ?img = "dict_get news_input ''Imagetext'' (JStr [])"
  let ?p = "ClaimsPrompt (JStr t) (if py_truthy ?img then Some ?img else None) (n = 1)"
  have real: "(n \<noteq> 0) = (n = 1)" using assms(4) by auto
  have body: "verify_body w news_input tk gk = run_stages w (JStr t) ?img (n = 1) tk gk"
    using verify_valid_label [OF assms(1,2,3), of w tk gk] real by simp
  have conf: "configure_apis w tk gk = Inr ()"
    using assms(5) by (simp add: configure_apis_def except_Exception_def)
  have ex: "extract_claims_for_verification w (JStr t) ?img (n = 1) = (Inr [], [Generate ?p])"
    using assms(6) by (auto simp: extract_claims_for_verification_def Let_def)
  have "run_stages w (JStr t) ?img (n = 1) tk gk =
      (Inr (empty_claims_result (n = 1)), [Configure tk gk, Generate ?p])"
    using ex conf by (simp add: run_stages_def)
  then show ?thesis
    using body
    by (simp add: verify_news_with_ground_truth_def empty_claims_result_def label_text_def
                  except_Exception_def)
qed

theorem empty_claims_short_circuit_witness:
  "verify_news_with_ground_truth (scripted_env ''No claims found.'' [] ''[]'' no_json)
       [''Text'' \<mapsto> JStr ''City launches tree-planting drive'', ''Real/Fake'' \<mapsto> JInt 0]
       ''tk'' ''gk'' =
     (Inr (JObj [(''label'', JStr ''FAKE''),
            (''overall_explanation'', JStr ''Could not extract claims for verification''),
            (''top_5_sources'', JArr [])]),
      [Configure ''tk'' ''gk'',
       Generate (ClaimsPrompt (JStr ''City launches tree-planting drive'') None False)])"
proof -
  let ?w = "scripted_env ''No claims found.'' [] ''[]'' no_json"
  let ?inp = "[''Text'' \<mapsto> JStr ''City launches tree-planting drive'',
               ''Real/Fake'' \<mapsto> JInt 0]"
  have img: "dict_get ?inp ''Imagetext'' (JStr []) = JStr []"
    by (simp add: dict_get_def)
  have none: "fst (extract_claims_for_verification ?w
                (JStr ''City launches tree-planting drive'') (JStr []) False) = Inr []"
    by code_simp
  have conf: "make_clients ?w ''tk'' ''gk'' = None"
    by (simp add: scripted_env_def)
  show ?thesis
    using empty_claims_short_circuit
            [of ?inp "''City launches tree-planting drive''" 0 ?w "''tk''" "''gk''"]
          img none conf
    by (simp add: prod_eq_iff)
qed

text \<open>
  The claim C5 as written gives the explanation in lower case; the code's string starts
  with a capital letter.
\<close>

theorem no_evidence_short_circuit_counterexample:
  "fst (search_supporting_evidence
          (scripted_env ''1. The city launched a tree-planting drive'' [] ''[]'' no_json)
          [''The city launched a tree-planting drive''] True) = Inr []
   \<and> fst (verify_news_with_ground_truth
                (scripted_env ''1. The city launched a tree-planting drive'' [] ''[]'' no_json)
                [''Text'' \<mapsto> JStr ''City launches tree-planting drive'',
                 ''Real/Fake'' \<mapsto> JInt 1] ''tk'' ''gk'')
       = Inr (no_evidence_result True)
   \<and> json_field ''overall_explanation'' (no_evidence_result True)
       \<noteq> Some (JStr ''no supporting sources found to verify this news'')"
  by code_simp

text \<open>
  C5 (amended). For a valid request whose clients are constructed, whose claim extraction
  returns at least one claim and whose evidence search returns no hit, the pipeline makes
  exactly three calls (clients, claim request, search), so the ranking request is never
  made, and it returns the dictionary with the target label, the explanation
  \<open>No supporting sources found to verify this news\<close> for a real label and
  \<open>No supporting sources found to debunk this news\<close> for a fake one, and an empty
  source list.
\<close>

theorem no_evidence_short_circuit:
  assumes "news_input ''Text'' = Some (JStr t)" and "t \<noteq> []"
      and "news_input ''Real/Fake'' = Some (JInt n)" and "n = 0 \<or> n = 1"
      and "make_clients w tk gk = None"
      and "fst (extract_claims_for_verification w (JStr t)
                  (dict_get news_input ''Imagetext'' (JStr [])) (n = 1)) = Inr claims"
      and "claims \<noteq> []"
      and "fst (search_supporting_evidence w claims (n = 1)) = Inr []"
  shows "fst (verify_news_with_ground_truth w news_input tk gk) =
           Inr (JObj [(''label'', JStr (if n = 1 then ''REAL'' else ''FAKE'')),
                 (''overall_explanation'',
                    JStr (if n = 1 then ''No supporting sources found to verify this news''
                          else ''No supporting sources found to debunk this news'')),
                 (''top_5_sources'', JArr [])])
         \<and> snd (verify_news_with_ground_truth w news_input tk gk) =
           [Configure tk gk,
            Generate (ClaimsPrompt (JStr t)
              (if py_truthy (dict_get news_input ''Imagetext'' (JStr []))
               then Some (dict_get news_input ''Imagetext'' (JStr [])) else None) (n = 1)),
            Search (search_request_for claims (n = 1))]
         \<and> \<not> list_ex is_generate_ranking
                (snd (verify_news_with_ground_truth w news_input tk gk))"
proof -
  let ?img = "dict_get news_input ''Imagetext'' (JStr [])"
  let ?p = "ClaimsPrompt (JStr t) (if py_truthy ?img then Some ?img else None) (n = 1)"
  have real: "(n \<noteq> 0) = (n = 1)" using assms(4) by auto
  have body: "verify_body w news_input tk gk = run_stages w (JStr t) ?img (n = 1) tk gk"
    using verify_valid_label [OF assms(1,2,3), of w tk gk] real by simp
  have conf: "configure_apis w tk gk = Inr ()"
    using assms(5) by (simp add: configure_apis_def except_Exception_def)
  have ex: "extract_claims_for_verification w (JStr t) ?img (n = 1)
              = (Inr claims, [Generate ?p])"
    using assms(6) by (auto simp: extract_claims_for_verification_def Let_def)
  have se: "search_supporting_evidence w claims (n = 1) =
              (Inr [], [Search (search_request_for claims (n = 1))])"
    using assms(8) by (auto simp: search_supporting_evidence_def Let_def)
  have "run_stages w (JStr t) ?img (n = 1) tk gk =
      (Inr (no_evidence_result (n = 1)),
       [Configure tk gk, Generate ?p, Search (search_request_for claims (n = 1))])"
    using ex se conf assms(7) by (simp add: run_stages_def)
  then show ?thesis
    using body
    by (simp add: verify_news_with_ground_truth_def no_evidence_result_def label_text_def
                  except_Exception_def)
qed

theorem no_evidence_short_circuit_witness:
  "verify_news_with_ground_truth
       (scripted_env ''1. The city launched a tree-planting drive'' [] ''[]'' no_json)
       [''Text'' \<mapsto> JStr ''City launches tree-planting drive'', ''Real/Fake'' \<mapsto> JInt 1]
       ''tk'' ''gk'' =
     (Inr (JObj [(''label'', JStr ''REAL''),
            (''overall_explanation'', JStr ''No supporting sources found to verify this news''),
            (''top_5_sources'', JArr [])]),
      [Configure ''tk'' ''gk'',
       Generate (ClaimsPrompt (JStr ''City launches tree-planting drive'') None True),
       Search (search_request_for [''The city launched a tree-planting drive''] True)])"
proof -
  let ?w = "scripted_env ''1. The city launched a tree-planting drive'' [] ''[]'' no_json"
  let ?inp = "[''Text'' \<mapsto> JStr ''City launches tree-planting drive'',
               ''Real/Fake'' \<mapsto> JInt 1]"
  have img: "dict_get ?inp ''Imagetext'' (JStr []) = JStr []"
    by (simp add: dict_get_def)
  have claims: "fst (extract_claims_for_verification ?w
                (JStr ''City launches tree-planting drive'') (JStr []) True)
              = Inr [''The city launched a tree-planting drive'']"
    by code_simp
  have hits: "fst (search_supporting_evidence ?w
                [''The city launched a tree-planting drive''] True) = Inr []"
    by code_simp
  have conf: "make_clients ?w ''tk'' ''gk'' = None"
    by (simp add: scripted_env_def)
  show ?thesis
    using no_evidence_short_circuit
            [of ?inp "''City launches tree-planting drive''" 1 ?w "''tk''" "''gk''"
                "[''The city launched a tree-planting drive'']"]
          img claims hits conf
    by (simp add: prod_eq_iff)
qed

section \<open>The fallback on URLs without a host\<close>

text \<open>
  C3. The fallback does not hold for a URL without a host part. A hit whose URL is
  empty, which is what \<open>search_supporting_evidence\<close> produces for a raw hit without
  \<open>url\<close>, makes the handler of the decoding error raise \<open>IndexError\<close>: the ranking
  function fails, and the pipeline answers with the ERROR result instead of a fallback
  with one source.
\<close>

theorem fallback_raises_on_url_without_host:
  "fst (select_top_5_with_explanations
          (scripted_env ''1. A claim'' [] ''not json'' no_json)
          (JStr ''News'') (JStr []) True [''A claim'']
          [\<lparr> url = [], title = ''Title'', content = ''Content'',
              score = JInt 0, published_date = JStr [] \<rparr>])
     = Inl (Raise IndexError ''list index out of range'')
   \<and> fst (verify_news_with_ground_truth
          (scripted_env ''1. A claim''
             [\<lparr> raw_url = None, raw_title = Some ''Title'', raw_content = Some ''Content'',
                 raw_score = None, raw_published_date = None \<rparr>] ''not json'' no_json)
          [''Text'' \<mapsto> JStr ''News'', ''Real/Fake'' \<mapsto> JInt 1] ''tk'' ''gk'')
     = Inr (error_result (Raise IndexError ''list index out of range''))"
  by code_simp

section \<open>Claim lines\<close>

text \<open>
  C6. The text of a line is not always preserved: the marker is removed by cutting at
  the first period of the line, so a dash-led line that contains a period loses
  everything up to that period.
\<close>

theorem dash_line_loses_text_before_period:
  "fst (extract_claims_for_verification
          (scripted_env ''- The U.S. economy grew'' [] ''[]'' no_json)
          (JStr ''News'') (JStr []) True)
     = Inr [''S. economy grew'']"
  by code_simp

section \<open>Conversion of the label\<close>

text \<open>
  C10. The \<open>Real/Fake\<close> field is not restricted to 0 and 1. Whatever value is present
  (and is not \<open>null\<close>) goes through \<^verbatim>\<open>bool(int(...))\<close>. When \<^verbatim>\<open>int\<close> succeeds with
  \<open>n\<close> the pipeline proceeds: it constructs the clients, asks for claims with the label
  real exactly when \<open>n\<close> is not zero, searches with that label, and every dictionary it
  builds itself carries REAL when \<open>n\<close> is not zero and FAKE when it is zero; the whole run
  is the run on the label 1 or 0. When \<^verbatim>\<open>int\<close> raises, nothing is called and the
  ERROR-shaped result carries the conversion's own message, not a validation message
  about the label.
\<close>

theorem label_converted_by_int:
  assumes "news_input ''Text'' = Some t" and "py_truthy t"
      and "news_input ''Real/Fake'' = Some v" and "v \<noteq> JNull"
  shows "(\<forall>n. py_int v = Inr n \<longrightarrow>
            verify_news_with_ground_truth w news_input tk gk =
              verify_news_with_ground_truth w
                (news_input(''Real/Fake'' \<mapsto> JInt (if n \<noteq> 0 then 1 else 0))) tk gk
            \<and> (\<exists>rest. snd (verify_news_with_ground_truth w news_input tk gk)
                          = Configure tk gk # rest)
            \<and> (make_clients w tk gk = None \<longrightarrow>
                 (\<exists>later. snd (verify_news_with_ground_truth w news_input tk gk) =
                     Configure tk gk
                     # Generate (ClaimsPrompt t
                         (if py_truthy (dict_get news_input ''Imagetext'' (JStr []))
                          then Some (dict_get news_input ''Imagetext'' (JStr [])) else None)
                         (n \<noteq> 0))
                     # later
                   \<and> (\<forall>req. Search req \<in> set later \<longrightarrow>
                          (\<exists>claims. claims \<noteq> [] \<and> req = search_request_for claims (n \<noteq> 0))))
                 \<and> (\<forall>r. fst (verify_news_with_ground_truth w news_input tk gk) = Inr r \<longrightarrow>
                        result_label r = Some (JStr (if n \<noteq> 0 then ''REAL'' else ''FAKE''))
                      \<or> returned_parsed_json w
                           (r, snd (verify_news_with_ground_truth w news_input tk gk))
                      \<or> fallback_met_url_without_host w
                           (snd (verify_news_with_ground_truth w news_input tk gk)))))
       \<and> (\<forall>e. py_int v = Inl e \<longrightarrow>
            verify_news_with_ground_truth w news_input tk gk = (Inr (error_result e), []))"
proof (intro conjI allI impI)
  fix e assume e: "py_int v = Inl e"
  then have "verify_body w news_input tk gk = (Inl e, [])"
    using verify_body_valid [OF assms, of w tk gk] by simp
  then show "verify_news_with_ground_truth w news_input tk gk = (Inr (error_result e), [])"
    using py_int_raises_Exception [OF e]
    by (simp add: verify_news_with_ground_truth_def except_Exception_def)
next
  fix n assume n: "py_int v = Inr n"
  let ?img = "dict_get news_input ''Imagetext'' (JStr [])"
  let ?canon = "news_input(''Real/Fake'' \<mapsto> JInt (if n \<noteq> 0 then 1 else 0))"
  let ?out = "verify_news_with_ground_truth w news_input tk gk"
  have body: "verify_body w news_input tk gk = run_stages w t ?img (n \<noteq> 0) tk gk"
    using verify_body_valid [OF assms, of w tk gk] n by simp
  obtain res calls where run: "run_stages w t ?img (n \<noteq> 0) tk gk = (res, calls)"
    by (cases "run_stages w t ?img (n \<noteq> 0) tk gk")
  have out: "?out = (except_Exception res (\<lambda>e. Inr (error_result e)), calls)"
    using body run by (simp add: verify_news_with_ground_truth_def)
  have "verify_body w ?canon tk gk =
          run_stages w t (dict_get ?canon ''Imagetext'' (JStr [])) (n \<noteq> 0) tk gk"
    using verify_body_valid [of ?canon t "JInt (if n \<noteq> 0 then 1 else 0)" w tk gk] assms(1,2)
    by simp
  moreover have "dict_get ?canon ''Imagetext'' (JStr []) = ?img"
    by (simp add: dict_get_def)
  ultimately show "?out = verify_news_with_ground_truth w ?canon tk gk"
    using body by (simp add: verify_news_with_ground_truth_def)
  from run_stages_calls [OF run] obtain rest where
    rest: "calls = Configure tk gk # rest" and
    later: "make_clients w tk gk = None \<longrightarrow>
              (\<exists>later. rest = Generate (ClaimsPrompt t
                                  (if py_truthy ?img then Some ?img else None) (n \<noteq> 0)) # later
                 \<and> (\<forall>req. Search req \<in> set later \<longrightarrow>
                        (\<exists>claims. claims \<noteq> [] \<and> req = search_request_for claims (n \<noteq> 0))))"
    by (elim exE conjE) (rule that, assumption+)
  show "\<exists>rest. snd ?out = Configure tk gk # rest"
    using out rest by simp
  {
    assume conf: "make_clients w tk gk = None"
    show "\<exists>later. snd ?out =
             Configure tk gk
             # Generate (ClaimsPrompt t (if py_truthy ?img then Some ?img else None) (n \<noteq> 0))
             # later
           \<and> (\<forall>req. Search req \<in> set later \<longrightarrow>
                  (\<exists>claims. claims \<noteq> [] \<and> req = search_request_for claims (n \<noteq> 0)))"
      using out rest later conf by auto
    fix r assume r: "fst ?out = Inr r"
    have "except_Exception res (\<lambda>e. Inr (error_result e)) = Inr r"
      using out r by simp
    from run_stages_label [OF run conf this]
    show "result_label r = Some (JStr (if n \<noteq> 0 then ''REAL'' else ''FAKE''))
          \<or> returned_parsed_json w (r, snd ?out)
          \<or> fallback_met_url_without_host w (snd ?out)"
      using out by (simp add: label_text_def)
  }
qed

text \<open>
  The values 2, -1 and the string \<open>1\<close> run as the label 1 and the string \<open>0\<close> as the
  label 0; the string \<open>real\<close> gives the ERROR result with the message of \<^verbatim>\<open>int\<close>.
\<close>

theorem label_converted_by_int_witness:
  "verify_news_with_ground_truth (scripted_env ''no list'' [] ''[]'' no_json)
       [''Text'' \<mapsto> JStr ''News'', ''Real/Fake'' \<mapsto> JInt 2] ''tk'' ''gk'' =
     (Inr (empty_claims_result True),
      [Configure ''tk'' ''gk'', Generate (ClaimsPrompt (JStr ''News'') None True)])
   \<and> verify_news_with_ground_truth (scripted_env ''no list'' [] ''[]'' no_json)
       [''Text'' \<mapsto> JStr ''News'', ''Real/Fake'' \<mapsto> JInt (- 1)] ''tk'' ''gk'' =
     (Inr (empty_claims_result True),
      [Configure ''tk'' ''gk'', Generate (ClaimsPrompt (JStr ''News'') None True)])
   \<and> verify_news_with_ground_truth (scripted_env ''no list'' [] ''[]'' no_json)
       [''Text'' \<mapsto> JStr ''News'', ''Real/Fake'' \<mapsto> JStr ''1''] ''tk'' ''gk'' =
     (Inr (empty_claims_result True),
      [Configure ''tk'' ''gk'', Generate (ClaimsPrompt (JStr ''News'') None True)])
   \<and> verify_news_with_ground_truth (scripted_env ''no list'' [] ''[]'' no_json)
       [''Text'' \<mapsto> JStr ''News'', ''Real/Fake'' \<mapsto> JStr ''0''] ''tk'' ''gk'' =
     (Inr (empty_claims_result False),
      [Configure ''tk'' ''gk'', Generate (ClaimsPrompt (JStr ''News'') None False)])
   \<and> verify_news_with_ground_truth (scripted_env ''no list'' [] ''[]'' no_json)
       [''Text'' \<mapsto> JStr ''News'', ''Real/Fake'' \<mapsto> JStr ''real''] ''tk'' ''gk'' =
     (Inr (error_result (Raise ValueError
        (''invalid literal for int() with base 10: '' @ [CHR 0x27] @ ''real'' @ [CHR 0x27]))),
      [])"
proof -
  let ?w = "scripted_env ''no list'' [] ''[]'' no_json"
  let ?inp = "\<lambda>v. [''Text'' \<mapsto> JStr ''News'', ''Real/Fake'' \<mapsto> v]"
  have canon: "(?inp v)(''Real/Fake'' \<mapsto> JInt k) = ?inp (JInt k)" for v k
    by simp
  have one: "verify_news_with_ground_truth ?w (?inp (JInt 1)) ''tk'' ''gk'' =
     (Inr (empty_claims_result True),
      [Configure ''tk'' ''gk'', Generate (ClaimsPrompt (JStr ''News'') None True)])"
    by code_simp
  have zero: "verify_news_with_ground_truth ?w (?inp (JInt 0)) ''tk'' ''gk'' =
     (Inr (empty_claims_result False),
      [Configure ''tk'' ''gk'', Generate (ClaimsPrompt (JStr ''News'') None False)])"
    by code_simp
  have s1: "py_int (JStr ''1'') = Inr 1" by code_simp
  have s0: "py_int (JStr ''0'') = Inr 0" by code_simp
  have real: "py_int (JStr ''real'') = Inl (Raise ValueError
      (''invalid literal for int() with base 10: '' @ [CHR 0x27] @ ''real'' @ [CHR 0x27]))"
    by code_simp
  have "verify_news_with_ground_truth ?w (?inp (JInt 2)) ''tk'' ''gk'' =
        verify_news_with_ground_truth ?w (?inp (JInt 1)) ''tk'' ''gk''"
    using label_converted_by_int
            [of "?inp (JInt 2)" "JStr ''News''" "JInt 2" ?w "''tk''" "''gk''"]
    by simp
  moreover have "verify_news_with_ground_truth ?w (?inp (JInt (- 1))) ''tk'' ''gk'' =
        verify_news_with_ground_truth ?w (?inp (JInt 1)) ''tk'' ''gk''"
    using label_converted_by_int
            [of "?inp (JInt (- 1))" "JStr ''News''" "JInt (- 1)" ?w "''tk''" "''gk''"]
    by simp
  moreover have "verify_news_with_ground_truth ?w (?inp (JStr ''1'')) ''tk'' ''gk'' =
        verify_news_with_ground_truth ?w (?inp (JInt 1)) ''tk'' ''gk''"
    using label_converted_by_int
            [of "?inp (JStr ''1'')" "JStr ''News''" "JStr ''1''" ?w "''tk''" "''gk''"] s1
    by simp
  moreover have "verify_news_with_ground_truth ?w (?inp (JStr ''0'')) ''tk'' ''gk'' =
        verify_news_with_ground_truth ?w (?inp (JInt 0)) ''tk'' ''gk''"
    using label_converted_by_int
            [of "?inp (JStr ''0'')" "JStr ''News''" "JStr ''0''" ?w "''tk''" "''gk''"] s0
    by simp
  moreover have "verify_news_with_ground_truth ?w (?inp (JStr ''real'')) ''tk'' ''gk'' =
     (Inr (error_result (Raise ValueError
        (''invalid literal for int() with base 10: '' @ [CHR 0x27] @ ''real'' @ [CHR 0x27]))),
      [])"
    using label_converted_by_int
            [of "?inp (JStr ''real'')" "JStr ''News''" "JStr ''real''" ?w "''tk''" "''gk''"] real
    by simp
  ultimately show ?thesis using one zero by simp
qed

section \<open>Ranks of the returned sources\<close>

text \<open>
  The claim C2 as written covers the successful parse: a ranking answer with six
  sources, all of rank 1, is returned as it is.
\<close>

theorem built_results_have_dense_ranks_counterexample:
  \<open>fst (verify_news_with_ground_truth
       (scripted_env ''1. A claim'' [raw_hit_at ''https://www.thehindu.com/news/x'']
          ''{"label": "REAL", "overall_explanation": "x", "top_5_sources": [{"rank": 1}, {"rank": 1}, {"rank": 1}, {"rank": 1}, {"rank": 1}, {"rank": 1}]}''
          (loads_only
             ''{"label": "REAL", "overall_explanation": "x", "top_5_sources": [{"rank": 1}, {"rank": 1}, {"rank": 1}, {"rank": 1}, {"rank": 1}, {"rank": 1}]}''
             (JObj [(''label'', JStr ''REAL''), (''overall_explanation'', JStr ''x''),
                    (''top_5_sources'', JArr (replicate 6 (JObj [(''rank'', JInt 1)])))])))
       [''Text'' \<mapsto> JStr ''News'', ''Real/Fake'' \<mapsto> JInt 1] ''tk'' ''gk'')
     = Inr (JObj [(''label'', JStr ''REAL''), (''overall_explanation'', JStr ''x''),
                  (''top_5_sources'', JArr (replicate 6 (JObj [(''rank'', JInt 1)])))])
   \<and> result_sources (JObj [(''label'', JStr ''REAL''), (''overall_explanation'', JStr ''x''),
                  (''top_5_sources'', JArr (replicate 6 (JObj [(''rank'', JInt 1)])))])
     = Some (replicate 6 (JObj [(''rank'', JInt 1)]))
   \<and> \<not> length (replicate 6 (JObj [(''rank'', JInt 1)])) \<le> 5
   \<and> source_ranks (replicate 6 (JObj [(''rank'', JInt 1)]))
       \<noteq> dense_ranks (length (replicate 6 (JObj [(''rank'', JInt 1)])))\<close>
  by code_simp

text \<open>
  C2 (amended). Every result that the pipeline builds itself, that is every result
  other than the parsed JSON of the ranking answer, which is passed on unchecked, has a
  source list of length at most 5 whose rank fields are exactly \<open>1, \<dots>, k\<close> in ascending
  order for its \<open>k\<close> sources. When the function does not return a result, an exception
  outside \<^verbatim>\<open>Exception\<close> raised by a collaborator has left it.
\<close>

theorem built_results_have_dense_ranks:
  "case fst (verify_news_with_ground_truth w news_input tk gk) of
     Inr r \<Rightarrow>
       returned_parsed_json w (r, snd (verify_news_with_ground_truth w news_input tk gk))
       \<or> (\<exists>sources. result_sources r = Some sources
              \<and> length sources \<le> 5
              \<and> source_ranks sources = dense_ranks (length sources))
   | Inl e \<Rightarrow> \<not> is_exception e \<and> raised_by_collaborator w tk gk e"
proof -
  obtain res calls where out: "verify_news_with_ground_truth w news_input tk gk = (res, calls)"
    by (cases "verify_news_with_ground_truth w news_input tk gk")
  have empty: "source_ranks [] = dense_ranks (length ([] :: json list))"
    by (simp add: source_ranks_def dense_ranks_def)
  from verify_outcomes [OF out] consider
      (escaped) e where "res = Inl e" "\<not> is_exception e" "raised_by_collaborator w tk gk e"
    | (parsed) r where "res = Inr r" "returned_parsed_json w (r, calls)"
    | (none) r where "res = Inr r" "result_sources r = Some []"
    | (fallback) b hs sources where "res = Inr (fallback_result b sources)"
        "fallback_sources 0 (take 5 hs) = Inr sources"
    by (auto simp: built_result_shapes)
  then show ?thesis
  proof cases
    case escaped
    then show ?thesis using out by simp
  next
    case parsed
    then show ?thesis using out by simp
  next
    case none
    then show ?thesis using out empty by simp
  next
    case fallback
    have "length sources = length (take 5 hs)"
      and "source_ranks sources = dense_ranks (length sources)"
      using fallback_sources_dense [OF fallback(2)] by simp_all
    then show ?thesis using out fallback(1) by (simp add: built_result_shapes)
  qed
qed

text \<open>Three hits and a ranking answer that is not JSON: ranks 1, 2, 3.\<close>

theorem built_results_have_dense_ranks_witness:
  "\<exists>r sources.
     fst (verify_news_with_ground_truth
       (scripted_env ''1. A claim''
          [raw_hit_at ''https://www.thehindu.com/news/x'',
           raw_hit_at ''https://www.ndtv.com/india/y'',
           raw_hit_at ''https://scroll.in/article/z'']
          ''not json'' no_json)
       [''Text'' \<mapsto> JStr ''News'', ''Real/Fake'' \<mapsto> JInt 1] ''tk'' ''gk'') = Inr r
     \<and> result_sources r = Some sources
     \<and> source_ranks sources = [Some (JInt 1), Some (JInt 2), Some (JInt 3)]"
proof -
  let ?w = "scripted_env ''1. A claim''
          [raw_hit_at ''https://www.thehindu.com/news/x'',
           raw_hit_at ''https://www.ndtv.com/india/y'',
           raw_hit_at ''https://scroll.in/article/z'']
          ''not json'' no_json"
  let ?inp = "[''Text'' \<mapsto> JStr ''News'', ''Real/Fake'' \<mapsto> JInt 1]"
  let ?out = "verify_news_with_ground_truth ?w ?inp ''tk'' ''gk''"
  have "case fst ?out of Inr r \<Rightarrow> True | Inl e \<Rightarrow> False"
    by code_simp
  then obtain r where r: "fst ?out = Inr r"
    by (cases "fst ?out") simp_all
  have "case fst ?out of Inr r \<Rightarrow> \<not> returned_parsed_json ?w (r, snd ?out) | Inl e \<Rightarrow> True"
    by code_simp
  then have "\<not> returned_parsed_json ?w (r, snd ?out)"
    using r by simp
  then obtain sources where
    srcs: "result_sources r = Some sources" and
    dense: "source_ranks sources = dense_ranks (length sources)"
    using built_results_have_dense_ranks
            [where w = ?w and news_input = ?inp and tk = "''tk''" and gk = "''gk''"] r
    by auto
  have "case fst ?out of Inr r \<Rightarrow> map_option length (result_sources r) = Some 3
        | Inl e \<Rightarrow> True"
    by code_simp
  then have "length sources = 3" using r srcs by simp
  moreover have "dense_ranks 3 = [Some (JInt 1), Some (JInt 2), Some (JInt 3)]"
    by code_simp
  ultimately show ?thesis using r srcs dense by auto
qed

section \<open>Containment of exceptions\<close>

text \<open>
  The claim C8 as written promises a well-formed result object for every behaviour of
  the collaborators. A ranking answer \<open>[]\<close> parses to a list, and the list is what the
  caller receives; and a \<open>KeyboardInterrupt\<close> raised inside the ranking request is not
  caught by \<^verbatim>\<open>except Exception\<close> and leaves the function.
\<close>

theorem exceptions_become_error_results_counterexample:
  "fst (verify_news_with_ground_truth
       (scripted_env ''1. A claim'' [raw_hit_at ''https://www.thehindu.com/news/x'']
          ''[]'' (loads_only ''[]'' (JArr [])))
       [''Text'' \<mapsto> JStr ''News'', ''Real/Fake'' \<mapsto> JInt 1] ''tk'' ''gk'') = Inr (JArr [])
   \<and> \<not> well_formed_result (JArr [])
   \<and> fst (verify_news_with_ground_truth
       (scripted_env_failing_ranker ''1. A claim''
          [raw_hit_at ''https://www.thehindu.com/news/x''] (Raise KeyboardInterrupt []))
       [''Text'' \<mapsto> JStr ''News'', ''Real/Fake'' \<mapsto> JInt 1] ''tk'' ''gk'')
     = Inl (Raise KeyboardInterrupt [])"
  by code_simp

text \<open>
  C8 (amended). For every input record and every behaviour of the collaborators in which
  the exceptions they raise derive from \<^verbatim>\<open>Exception\<close>, the function does not raise: an
  exception that leaves the body of the outer \<^verbatim>\<open>try\<close> is turned into the result with
  label ERROR, an explanation that embeds the exception text, an empty source list and
  the \<open>error\<close> field. The only exceptions that leave the function are those outside
  \<^verbatim>\<open>Exception\<close> raised by a collaborator. A value returned is either a well-formed
  result object or the parsed JSON of the ranking answer, passed on unchecked.
\<close>

theorem exceptions_become_error_results:
  "(\<forall>e calls. verify_body w news_input tk gk = (Inl e, calls) \<and> is_exception e \<longrightarrow>
       verify_news_with_ground_truth w news_input tk gk =
         (Inr (JObj [(''label'', JStr ''ERROR''),
                (''overall_explanation'', JStr (''Error during verification: '' @ exn_text e)),
                (''top_5_sources'', JArr []),
                (''error'', JStr (exn_text e))]), calls))
   \<and> (\<forall>e. fst (verify_news_with_ground_truth w news_input tk gk) = Inl e \<longrightarrow>
          \<not> is_exception e \<and> raised_by_collaborator w tk gk e)
   \<and> (raises_only_Exception w \<longrightarrow>
          (\<exists>r. fst (verify_news_with_ground_truth w news_input tk gk) = Inr r))
   \<and> (\<forall>r. fst (verify_news_with_ground_truth w news_input tk gk) = Inr r \<longrightarrow>
          well_formed_result r
          \<or> returned_parsed_json w
               (r, snd (verify_news_with_ground_truth w news_input tk gk)))"
proof -
  let ?out = "verify_news_with_ground_truth w news_input tk gk"
  obtain res calls where out: "?out = (res, calls)"
    by (cases ?out)
  have handled: "\<forall>e calls. verify_body w news_input tk gk = (Inl e, calls) \<and> is_exception e \<longrightarrow>
       ?out = (Inr (JObj [(''label'', JStr ''ERROR''),
                (''overall_explanation'', JStr (''Error during verification: '' @ exn_text e)),
                (''top_5_sources'', JArr []),
                (''error'', JStr (exn_text e))]), calls)"
    by (simp add: verify_news_with_ground_truth_def error_result_def except_Exception_def)
  have escapes: "\<not> is_exception e \<and> raised_by_collaborator w tk gk e" if "res = Inl e" for e
    using verify_outcomes [OF out] that by auto
  have returned: "well_formed_result r \<or> returned_parsed_json w (r, calls)"
    if r: "res = Inr r" for r
  proof -
    from verify_outcomes [OF out] r consider
        (parsed) "returned_parsed_json w (r, calls)"
      | (built) "well_formed_result r"
      | (fallback) b hs sources where "r = fallback_result b sources"
          "fallback_sources 0 (take 5 hs) = Inr sources"
      by (auto simp: well_formed_built)
    then show ?thesis
    proof cases
      case fallback
      have "length sources = length (take 5 hs)"
        using fallback_sources_dense [OF fallback(2)] by simp
      then have "length sources \<le> 5" by simp
      then show ?thesis using fallback(1) by (simp add: well_formed_built)
    qed blast+
  qed
  have total: "\<exists>r. res = Inr r" if only: "raises_only_Exception w"
  proof (cases res)
    case (Inl e)
    then have "\<not> is_exception e" and "raised_by_collaborator w tk gk e"
      using escapes by blast+
    then have False
      using only unfolding raises_only_Exception_def raised_by_collaborator_def by blast
    then show ?thesis ..
  next
    case (Inr r)
    then show ?thesis by blast
  qed
  show ?thesis
  proof (intro conjI)
    show "\<forall>e calls. verify_body w news_input tk gk = (Inl e, calls) \<and> is_exception e \<longrightarrow>
       ?out = (Inr (JObj [(''label'', JStr ''ERROR''),
                (''overall_explanation'', JStr (''Error during verification: '' @ exn_text e)),
                (''top_5_sources'', JArr []),
                (''error'', JStr (exn_text e))]), calls)"
      by (rule handled)
    show "\<forall>e. fst ?out = Inl e \<longrightarrow> \<not> is_exception e \<and> raised_by_collaborator w tk gk e"
      using escapes out by simp
    show "raises_only_Exception w \<longrightarrow> (\<exists>r. fst ?out = Inr r)"
      using total out by simp
    show "\<forall>r. fst ?out = Inr r \<longrightarrow>
            well_formed_result r \<or> returned_parsed_json w (r, snd ?out)"
      using returned out by simp
  qed
qed

text \<open>
  Clients that cannot be constructed: the \<open>ValueError\<close> is wrapped by
  \<open>configure_apis\<close> and comes back as the ERROR result.
\<close>

theorem exceptions_become_error_results_witness:
  "raises_only_Exception
     ((scripted_env ''1. A claim'' [] ''[]'' no_json)
        \<lparr> make_clients := (\<lambda>tk gk. Some (Raise ValueError ''Invalid API key'')) \<rparr>)
   \<and> verify_news_with_ground_truth
       ((scripted_env ''1. A claim'' [] ''[]'' no_json)
          \<lparr> make_clients := (\<lambda>tk gk. Some (Raise ValueError ''Invalid API key'')) \<rparr>)
       [''Text'' \<mapsto> JStr ''News'', ''Real/Fake'' \<mapsto> JInt 1] ''tk'' ''gk'' =
     (Inr (JObj [(''label'', JStr ''ERROR''),
            (''overall_explanation'',
               JStr ''Error during verification: API configuration failed: Invalid API key''),
            (''top_5_sources'', JArr []),
            (''error'', JStr ''API configuration failed: Invalid API key'')]),
      [Configure ''tk'' ''gk''])"
proof -
  let ?w = "(scripted_env ''1. A claim'' [] ''[]'' no_json)
              \<lparr> make_clients := (\<lambda>tk gk. Some (Raise ValueError ''Invalid API key'')) \<rparr>"
  let ?inp = "[''Text'' \<mapsto> JStr ''News'', ''Real/Fake'' \<mapsto> JInt 1]"
  have only: "raises_only_Exception ?w"
    by (auto simp: raises_only_Exception_def scripted_env_def no_json_def
             split: prompt.splits)
  have body: "verify_body ?w ?inp ''tk'' ''gk'' =
          (Inl (Raise Exception ''API configuration failed: Invalid API key''),
           [Configure ''tk'' ''gk''])"
    by code_simp
  have "is_exception (Raise Exception ''API configuration failed: Invalid API key'')"
    by simp
  then show ?thesis
    using exceptions_become_error_results
            [where w = ?w and news_input = ?inp and tk = "''tk''" and gk = "''gk''"]
          body only
    by simp
qed

section \<open>The label of the result\<close>

text \<open>
  The claim C1 as written covers the successful parse: a ranking answer whose label
  is \<open>MAYBE\<close> is returned as it is for a request labelled 1.
\<close>

theorem label_preserved_unless_parsed_counterexample:
  \<open>fst (verify_news_with_ground_truth
       (scripted_env ''1. A claim'' [raw_hit_at ''https://www.thehindu.com/news/x'']
          ''{"label": "MAYBE", "overall_explanation": "x", "top_5_sources": []}''
          (loads_only ''{"label": "MAYBE", "overall_explanation": "x", "top_5_sources": []}''
             (JObj [(''label'', JStr ''MAYBE''), (''overall_explanation'', JStr ''x''),
                    (''top_5_sources'', JArr [])])))
       [''Text'' \<mapsto> JStr ''News'', ''Real/Fake'' \<mapsto> JInt 1] ''tk'' ''gk'')
     = Inr (JObj [(''label'', JStr ''MAYBE''), (''overall_explanation'', JStr ''x''),
                  (''top_5_sources'', JArr [])])
   \<and> result_label (JObj [(''label'', JStr ''MAYBE''), (''overall_explanation'', JStr ''x''),
                  (''top_5_sources'', JArr [])]) = Some (JStr ''MAYBE'')\<close>
  by code_simp

text \<open>
  C1 (amended). For every request with non-empty text and a label in \<open>{0, 1}\<close>, a
  result that the pipeline returns has the label ERROR when the clients cannot be
  constructed; otherwise its label is the mapped ground-truth label (1 gives REAL, 0
  gives FAKE) on every path where the pipeline builds the result itself: empty claims,
  no evidence, a failing ranking request, and the fallback over hits with host parts.
  The two exceptions are the parsed JSON of the ranking answer, which is passed on
  unchecked, and the fallback that meets a URL without host among the first five hits,
  about which nothing is said here. When no result is returned, an exception outside
  \<^verbatim>\<open>Exception\<close> raised by a collaborator has left the function.
\<close>

theorem label_preserved_unless_parsed:
  assumes "news_input ''Text'' = Some (JStr t)" and "t \<noteq> []"
      and "news_input ''Real/Fake'' = Some (JInt n)" and "n = 0 \<or> n = 1"
  shows "(\<forall>r. fst (verify_news_with_ground_truth w news_input tk gk) = Inr r \<longrightarrow>
            (make_clients w tk gk \<noteq> None \<longrightarrow> result_label r = Some (JStr ''ERROR''))
          \<and> (make_clients w tk gk = None \<longrightarrow>
                result_label r = Some (JStr (if n = 1 then ''REAL'' else ''FAKE''))
              \<or> returned_parsed_json w
                   (r, snd (verify_news_with_ground_truth w news_input tk gk))
              \<or> fallback_met_url_without_host w
                   (snd (verify_news_with_ground_truth w news_input tk gk))))
       \<and> (\<forall>e. fst (verify_news_with_ground_truth w news_input tk gk) = Inl e \<longrightarrow>
            \<not> is_exception e \<and> raised_by_collaborator w tk gk e)"
proof -
  let ?img = "dict_get news_input ''Imagetext'' (JStr [])"
  let ?out = "verify_news_with_ground_truth w news_input tk gk"
  have real: "(n \<noteq> 0) = (n = 1)" using assms(4) by auto
  have body: "verify_body w news_input tk gk = run_stages w (JStr t) ?img (n = 1) tk gk"
    using verify_valid_label [OF assms(1,2,3), of w tk gk] real by simp
  obtain res calls where run: "run_stages w (JStr t) ?img (n = 1) tk gk = (res, calls)"
    by (cases "run_stages w (JStr t) ?img (n = 1) tk gk")
  have out: "?out = (except_Exception res (\<lambda>e. Inr (error_result e)), calls)"
    using body run by (simp add: verify_news_with_ground_truth_def)
  have lbl: "label_text (n = 1) = (if n = 1 then ''REAL'' else ''FAKE'')"
    by (simp add: label_text_def)
  have configured:
    "result_label r = Some (JStr (if n = 1 then ''REAL'' else ''FAKE''))
     \<or> returned_parsed_json w (r, calls) \<or> fallback_met_url_without_host w calls"
    if "fst ?out = Inr r" and "make_clients w tk gk = None" for r
  proof -
    have "except_Exception res (\<lambda>e. Inr (error_result e)) = Inr r"
      using that(1) out by simp
    from run_stages_label [OF run that(2) this] show ?thesis
      unfolding lbl .
  qed
  have not_configured: "result_label r = Some (JStr ''ERROR'')"
    if "fst ?out = Inr r" and "make_clients w tk gk \<noteq> None" for r
  proof -
    have "except_Exception res (\<lambda>e. Inr (error_result e)) = Inr r"
      using that(1) out by simp
    from run_stages_not_configured [OF run that(2) this] show ?thesis
      by (auto simp: built_result_labels)
  qed
  have escapes: "\<not> is_exception e \<and> raised_by_collaborator w tk gk e"
    if "fst ?out = Inl e" for e
  proof -
    have "?out = (Inl e, snd ?out)" using that by (simp add: prod_eq_iff)
    from verify_outcomes [OF this] show ?thesis by auto
  qed
  show ?thesis
    using configured not_configured escapes unfolding out by simp
qed

text \<open>
  A fallback over a hit with a host keeps the label REAL; a ranking request that fails
  keeps the label FAKE even though the only hit has no URL.
\<close>

theorem label_preserved_unless_parsed_witness:
  "map_sum id result_label (fst (verify_news_with_ground_truth
       (scripted_env ''1. A claim'' [raw_hit_at ''https://www.thehindu.com/news/x'']
          ''not json'' no_json)
       [''Text'' \<mapsto> JStr ''News'', ''Real/Fake'' \<mapsto> JInt 1] ''tk'' ''gk''))
     = Inr (Some (JStr ''REAL''))
   \<and> map_sum id result_label (fst (verify_news_with_ground_truth
       (scripted_env_failing_ranker ''1. A claim''
          [\<lparr> raw_url = None, raw_title = Some ''Title'', raw_content = Some ''Content'',
              raw_score = None, raw_published_date = None \<rparr>]
          (Raise (OtherError ''ServiceUnavailable'') ''503''))
       [''Text'' \<mapsto> JStr ''News'', ''Real/Fake'' \<mapsto> JInt 0] ''tk'' ''gk''))
     = Inr (Some (JStr ''FAKE''))"
proof -
  let ?w1 = "scripted_env ''1. A claim'' [raw_hit_at ''https://www.thehindu.com/news/x'']
              ''not json'' no_json"
  let ?w0 = "scripted_env_failing_ranker ''1. A claim''
          [\<lparr> raw_url = None, raw_title = Some ''Title'', raw_content = Some ''Content'',
              raw_score = None, raw_published_date = None \<rparr>]
          (Raise (OtherError ''ServiceUnavailable'') ''503'')"
  let ?inp = "\<lambda>k. [''Text'' \<mapsto> JStr ''News'', ''Real/Fake'' \<mapsto> JInt k]"
  let ?out1 = "verify_news_with_ground_truth ?w1 (?inp 1) ''tk'' ''gk''"
  let ?out0 = "verify_news_with_ground_truth ?w0 (?inp 0) ''tk'' ''gk''"
  have conf1: "make_clients ?w1 ''tk'' ''gk'' = None"
    by (simp add: scripted_env_def)
  have conf0: "make_clients ?w0 ''tk'' ''gk'' = None"
    by (simp add: scripted_env_failing_ranker_def scripted_env_def)
  have ret1: "case fst ?out1 of Inr r \<Rightarrow>
                \<not> returned_parsed_json ?w1 (r, snd ?out1)
                \<and> \<not> fallback_met_url_without_host ?w1 (snd ?out1)
              | Inl e \<Rightarrow> False"
    by code_simp
  have ret0: "case fst ?out0 of Inr r \<Rightarrow>
                \<not> returned_parsed_json ?w0 (r, snd ?out0)
                \<and> \<not> fallback_met_url_without_host ?w0 (snd ?out0)
              | Inl e \<Rightarrow> False"
    by code_simp
  obtain r1 where r1: "fst ?out1 = Inr r1" using ret1 by (cases "fst ?out1") simp_all
  obtain r0 where r0: "fst ?out0 = Inr r0" using ret0 by (cases "fst ?out0") simp_all
  have "result_label r1 = Some (JStr ''REAL'')"
    using label_preserved_unless_parsed
            [where news_input = "?inp 1" and t = "''News''" and n = 1 and w = ?w1
               and tk = "''tk''" and gk = "''gk''"]
          conf1 r1 ret1
    by simp
  moreover have "result_label r0 = Some (JStr ''FAKE'')"
    using label_preserved_unless_parsed
            [where news_input = "?inp 0" and t = "''News''" and n = 0 and w = ?w0
               and tk = "''tk''" and gk = "''gk''"]
          conf0 r0 ret0
    by simp
  ultimately show ?thesis using r1 r0 by simp
qed

end
